theory Spec2Isabelle
  imports Complex_Main "HOL-Library.Sublist" "HOL-Library.Word"
begin

text \<open>
  The Express server of \<^verbatim>\<open>server.js\<close>: its five handlers with a required parameter,
  GET /wiki, GET /clima, POST /vuelos, GET /hospedaje and POST /consejos, each as a function
  from the world around the handler and the parameters of the request to the response and
  the outbound requests made. The two handlers without input (GET / and GET /tools) answer
  a constant and are not modelled; neither is the logging of the \<^verbatim>\<open>catch\<close> blocks,
  which no response depends on.
\<close>

section \<open>Strings\<close>

text \<open>
  A JavaScript string is modelled by the bytes of its UTF-8 encoding, the encoding of
  \<^verbatim>\<open>server.js\<close> itself. Concatenation, template interpolation, equality and
  substring search on well-formed strings agree with the same operations on the
  encodings. The accented letters of the Spanish texts are two bytes each.
\<close>

definition a_acute :: string where "a_acute = [CHR 0xC3, CHR 0xA1]"
definition e_acute :: string where "e_acute = [CHR 0xC3, CHR 0xA9]"
definition i_acute :: string where "i_acute = [CHR 0xC3, CHR 0xAD]"
definition o_acute :: string where "o_acute = [CHR 0xC3, CHR 0xB3]"
definition u_acute :: string where "u_acute = [CHR 0xC3, CHR 0xBA]"

text \<open>The decimal digits of a natural number.\<close>

definition is_digit :: "char \<Rightarrow> bool" where
  "is_digit c = (48 \<le> (of_char c :: nat) \<and> (of_char c :: nat) \<le> 57)"

definition digit_char :: "nat \<Rightarrow> char" where
  "digit_char d = char_of (48 + d)"

fun decimal :: "nat \<Rightarrow> string" where
  "decimal n = (if n < 10 then [digit_char n] else decimal (n div 10) @ [digit_char (n mod 10)])"

declare decimal.simps [simp del]

fun join_with :: "string \<Rightarrow> string list \<Rightarrow> string" where
  "join_with sep [] = []"
| "join_with sep [x] = x"
| "join_with sep (x # y # ys) = x @ sep @ join_with sep (y # ys)"

section \<open>Numbers\<close>

text \<open>
  A JavaScript number is an IEEE 754 double, here the 64 bits of its binary64 pattern: the
  sign, eleven bits of exponent and 52 bits of fraction. The exponent field 2047 marks
  the infinities (fraction zero) and \<^verbatim>\<open>NaN\<close>; every other pattern is the number
  \<open>\<plusminus> significand * 2 ^ exponent\<close>, with the two zeros among them.
\<close>

type_synonym double = "64 word"

definition sign_bit :: "double \<Rightarrow> bool" where
  "sign_bit x = bit x 63"

definition exponent_field :: "double \<Rightarrow> nat" where
  "exponent_field x = unat (take_bit 11 (drop_bit 52 x))"

definition fraction_field :: "double \<Rightarrow> nat" where
  "fraction_field x = unat (take_bit 52 x)"

definition is_nan :: "double \<Rightarrow> bool" where
  "is_nan x = (exponent_field x = 2047 \<and> fraction_field x \<noteq> 0)"

definition is_infinite :: "double \<Rightarrow> bool" where
  "is_infinite x = (exponent_field x = 2047 \<and> fraction_field x = 0)"

definition is_zero :: "double \<Rightarrow> bool" where
  "is_zero x = (exponent_field x = 0 \<and> fraction_field x = 0)"

definition significand :: "double \<Rightarrow> nat" where
  "significand x = (if exponent_field x = 0 then fraction_field x else 2 ^ 52 + fraction_field x)"

definition exponent :: "double \<Rightarrow> int" where
  "exponent x = (if exponent_field x = 0 then - 1074 else int (exponent_field x) - 1075)"

text \<open>
  The string of a number (\<^verbatim>\<open>Number::toString\<close> of ECMAScript, radix 10) shows the
  shortest decimal \<open>s * 10 ^ p\<close> that is read back as the same double, and of several
  the nearest one. For the positive double \<open>m * 2 ^ e\<close>, the quotient of \<open>scaled_num m e p\<close>
  by \<open>scaled_den e p\<close> is the number in units of \<open>10 ^ p\<close>.
\<close>

definition scaled_num :: "nat \<Rightarrow> int \<Rightarrow> int \<Rightarrow> nat" where
  "scaled_num m e p = m * 2 ^ nat e * 10 ^ nat (- p)"

definition scaled_den :: "int \<Rightarrow> int \<Rightarrow> nat" where
  "scaled_den e p = 2 ^ nat (- e) * 10 ^ nat p"

text \<open>
  \<open>magnitude m e\<close> is the \<open>n\<close> with \<open>10 ^ (n - 1) \<le> m * 2 ^ e < 10 ^ n\<close>: the number of
  digits of the integer part, or for a number \<open>a / b\<close> below one, one minus the least
  \<open>t\<close> with \<open>b \<le> a * 10 ^ t\<close>.
\<close>

function first_place :: "nat \<Rightarrow> nat \<Rightarrow> nat \<Rightarrow> nat" where
  "first_place a b t = (if a = 0 \<or> b \<le> a * 10 ^ t then t else first_place a b (Suc t))"
  by pat_completeness auto
termination
proof (relation "measure (\<lambda>(a, b, t). b - a * 10 ^ t)")
  show "wf (measure (\<lambda>(a, b, t). b - a * 10 ^ t))" by simp
next
  fix a b t :: nat
  assume "\<not> (a = 0 \<or> b \<le> a * 10 ^ t)"
  then have a: "0 < a" and lt: "a * 10 ^ t < b" by simp_all
  have "a * 10 ^ t < a * 10 ^ Suc t" using a by simp
  then have "b - a * 10 ^ Suc t < b - a * 10 ^ t" using lt by (rule diff_less_mono2)
  then show "((a, b, Suc t), (a, b, t)) \<in> measure (\<lambda>(a, b, t). b - a * 10 ^ t)"
    by simp
qed

declare first_place.simps [simp del]

definition magnitude :: "nat \<Rightarrow> int \<Rightarrow> int" where
  "magnitude m e =
     (let a = scaled_num m e 0; b = scaled_den e 0
      in if b \<le> a then int (length (decimal (a div b))) else 1 - int (first_place a b 1))"

text \<open>
  The decimals read back as the double \<open>m * 2 ^ e\<close> are those between the midpoints to
  its two neighbours, the midpoints included when \<open>m\<close> is even (a tie is read as the even
  double). The upper midpoint is \<open>(4 * m + 2) / (4 * m)\<close> times the number; the lower one
  \<open>(4 * m - 2) / (4 * m)\<close> times, or \<open>(4 * m - 1) / (4 * m)\<close> times when the number is a
  power of two, whose lower neighbour is half as far. \<open>round_trips m e a b s\<close> says so of
  the decimal of \<open>s\<close> units, for the number \<open>a / b\<close> in these units.
\<close>

definition round_trips :: "nat \<Rightarrow> int \<Rightarrow> nat \<Rightarrow> nat \<Rightarrow> nat \<Rightarrow> bool" where
  "round_trips m e a b s =
     (let lo = 4 * m - (if m = 2 ^ 52 \<and> - 1074 < e then 1 else 2); hi = 4 * m + 2; v = 4 * m * s * b
      in if even m then lo * a \<le> v \<and> v \<le> hi * a else lo * a < v \<and> v < hi * a)"

definition nearest :: "nat \<Rightarrow> nat \<Rightarrow> nat" where
  "nearest a b =
     (let q = a div b; r = a mod b
      in if 2 * r < b \<or> (2 * r = b \<and> even q) then q else q + 1)"

text \<open>
  The decimal with a given unit that is read back as the number, if there is one: of the
  two around the number the one that is, and the nearer one if both are.
\<close>

definition candidate :: "nat \<Rightarrow> int \<Rightarrow> nat \<Rightarrow> nat \<Rightarrow> nat option" where
  "candidate m e a b =
     (let q = a div b
      in if round_trips m e a b q \<and> round_trips m e a b (q + 1) then Some (nearest a b)
         else if round_trips m e a b q then Some q
         else if round_trips m e a b (q + 1) then Some (q + 1)
         else None)"

text \<open>
  The search from one digit on, \<open>k\<close> digits being the unit \<open>10 ^ (n - k)\<close> for a number of
  magnitude \<open>n\<close>. Seventeen digits always suffice for a double.
\<close>

function shortest :: "nat \<Rightarrow> int \<Rightarrow> int \<Rightarrow> nat \<Rightarrow> nat \<times> int" where
  "shortest m e n k =
     (let p = n - int k; a = scaled_num m e p; b = scaled_den e p
      in case candidate m e a b of
           Some s \<Rightarrow> (s, p)
         | None \<Rightarrow> if 17 \<le> k then (nearest a b, p) else shortest m e n (Suc k))"
  by pat_completeness auto
termination
  by (relation "measure (\<lambda>(m, e, n, k). 17 - k)") auto

declare shortest.simps [simp del]

text \<open>
  The layout of the digits \<open>ds\<close> of a number \<open>0.ds * 10 ^ n\<close>: plain digits for an integer
  below \<open>10 ^ 21\<close>, a decimal point inside or zeros after it down to \<open>10 ^ - 6\<close>, and
  the exponent form everywhere else.
\<close>

definition strip_zeros :: "string \<Rightarrow> string" where
  "strip_zeros ds = rev (dropWhile (\<lambda>c. c = CHR ''0'') (rev ds))"

definition format_number :: "string \<Rightarrow> int \<Rightarrow> string" where
  "format_number ds n =
     (let k = int (length ds);
          ex = (if 1 \<le> n then ''+'' else ''-'') @ decimal (nat \<bar>n - 1\<bar>)
      in if k \<le> n \<and> n \<le> 21 then ds @ replicate (nat (n - k)) (CHR ''0'')
         else if 0 < n \<and> n \<le> 21 then take (nat n) ds @ ''.'' @ drop (nat n) ds
         else if - 6 < n \<and> n \<le> 0 then ''0.'' @ replicate (nat (- n)) (CHR ''0'') @ ds
         else if k = 1 then ds @ ''e'' @ ex
         else take 1 ds @ ''.'' @ drop 1 ds @ ''e'' @ ex)"

definition positive_to_string :: "nat \<Rightarrow> int \<Rightarrow> string" where
  "positive_to_string m e =
     (let (s, p) = shortest m e (magnitude m e) 1
      in format_number (strip_zeros (decimal s)) (p + int (length (decimal s))))"

definition number_to_string :: "double \<Rightarrow> string" where
  "number_to_string x =
     (if is_nan x then ''NaN''
      else if is_zero x then ''0''
      else (if sign_bit x then ''-'' else [])
        @ (if is_infinite x then ''Infinity'' else positive_to_string (significand x) (exponent x)))"

text \<open>
  The string of a number given by its integer value, as \<^verbatim>\<open>Math.floor\<close> returns it.
  Every integer below \<open>2 ^ 53\<close> is a double, and no decimal with fewer digits is read
  back as it: its string is its digits. A larger integer that is a double is
  \<open>m * 2 ^ e\<close> with its leading 53 bits as \<open>m\<close>, all other bits being zero, and has the
  string of that double (\<^verbatim>\<open>1152921504606847000\<close> for \<open>2 ^ 60\<close>).
\<close>

fun bit_length :: "nat \<Rightarrow> nat" where
  "bit_length n = (if n = 0 then 0 else Suc (bit_length (n div 2)))"

declare bit_length.simps [simp del]

definition integer_to_string :: "int \<Rightarrow> string" where
  "integer_to_string n =
     (if n < 0 then ''-'' else [])
       @ (let N = nat \<bar>n\<bar>
          in if N < 2 ^ 53 then decimal N
             else positive_to_string (N div 2 ^ (bit_length N - 53)) (int (bit_length N - 53)))"

section \<open>JavaScript values\<close>

text \<open>
  The values a handler reads from \<^verbatim>\<open>req.query\<close>, \<^verbatim>\<open>req.body\<close>,
  \<^verbatim>\<open>process.env\<close> and an upstream JSON document. \<open>JUndefined\<close> is what reading an
  absent property gives. Objects are plain objects as a JSON or query parser builds them,
  an association list of their own properties, in which the first pair of a key counts;
  no value of a property is a function.
\<close>

datatype jsval =
    JUndefined
  | JNull
  | JBool bool
  | JNum double
  | JStr string
  | JArr "jsval list"
  | JObj "(string \<times> jsval) list"

text \<open>The test \<^verbatim>\<open>!v\<close> of the presence checks is \<open>\<not> truthy v\<close>.\<close>

fun truthy :: "jsval \<Rightarrow> bool" where
  "truthy JUndefined = False"
| "truthy JNull = False"
| "truthy (JBool b) = b"
| "truthy (JNum x) = (\<not> is_zero x \<and> \<not> is_nan x)"
| "truthy (JStr s) = (s \<noteq> [])"
| "truthy (JArr xs) = True"
| "truthy (JObj kvs) = True"

section \<open>Exceptions\<close>

text \<open>
  The exceptions a handler can meet: a rejected outbound request, with the message of
  its error, and three \<^verbatim>\<open>TypeError\<close>s: reading a property of \<^verbatim>\<open>undefined\<close> or
  \<^verbatim>\<open>null\<close>, calling a method a value does not have, and converting to a string an
  object that has no string conversion (with the messages that current versions of Node
  give them).
\<close>

datatype exn =
    RequestFailed string
  | NullishRead jsval string
  | NotAFunction string string
  | NotPrimitive

fun message :: "exn \<Rightarrow> string" where
  "message (RequestFailed m) = m"
| "message (NullishRead v p) =
     ''Cannot read properties of '' @ (if v = JNull then ''null'' else ''undefined'')
       @ '' (reading '' @ [CHR 0x27] @ p @ [CHR 0x27] @ '')''"
| "message (NotAFunction x f) = x @ ''.'' @ f @ '' is not a function''"
| "message NotPrimitive = ''Cannot convert object to primitive value''"

text \<open>Sequencing inside a \<^verbatim>\<open>try\<close> block: the first exception ends it.\<close>

definition bind_exn :: "exn + 'a \<Rightarrow> ('a \<Rightarrow> exn + 'b) \<Rightarrow> exn + 'b" where
  "bind_exn m f = (case m of Inl e \<Rightarrow> Inl e | Inr x \<Rightarrow> f x)"

fun collect :: "(exn + 'a) list \<Rightarrow> exn + 'a list" where
  "collect [] = Inr []"
| "collect (x # xs) = bind_exn x (\<lambda>y. bind_exn (collect xs) (\<lambda>ys. Inr (y # ys)))"

text \<open>
  String conversion, as a template literal and \<^verbatim>\<open>encodeURIComponent\<close> apply it to
  their argument. An array gives its elements joined by commas, from left to right, with
  \<^verbatim>\<open>null\<close> and \<^verbatim>\<open>undefined\<close> elements empty. A plain object gives
  \<^verbatim>\<open>[object Object]\<close> through the method \<^verbatim>\<open>toString\<close> it inherits; when it has
  a property \<^verbatim>\<open>toString\<close> of its own, this is no function, the inherited
  \<^verbatim>\<open>valueOf\<close> (or its own, no function either) gives no primitive value, and the
  conversion throws.
\<close>

fun to_string :: "jsval \<Rightarrow> exn + string" where
  "to_string JUndefined = Inr ''undefined''"
| "to_string JNull = Inr ''null''"
| "to_string (JBool b) = Inr (if b then ''true'' else ''false'')"
| "to_string (JNum x) = Inr (number_to_string x)"
| "to_string (JStr s) = Inr s"
| "to_string (JArr xs) =
     bind_exn (collect (map (\<lambda>x. if x = JUndefined \<or> x = JNull then Inr [] else to_string x) xs))
       (\<lambda>ss. Inr (join_with '','' ss))"
| "to_string (JObj kvs) =
     (if ''toString'' \<in> set (map fst kvs) then Inl NotPrimitive else Inr ''[object Object]'')"

section \<open>String operations\<close>

text \<open>
  \<^verbatim>\<open>toLowerCase\<close> on the letters \<open>A\<close> to \<open>Z\<close>. JavaScript also lowers letters
  outside ASCII; none of them becomes part of an occurrence of the words the handlers
  look for (\<open>negocio\<close>, \<open>aventura\<close>, \<open>cultural\<close>, \<open>bajo\<close>, \<open>alto\<close>), and the
  lowered text is used for these tests only.
\<close>

definition is_upper :: "char \<Rightarrow> bool" where
  "is_upper c = (65 \<le> (of_char c :: nat) \<and> (of_char c :: nat) \<le> 90)"

definition lower_char :: "char \<Rightarrow> char" where
  "lower_char c = (if is_upper c then char_of ((of_char c :: nat) + 32) else c)"

definition toLowerCase :: "string \<Rightarrow> string" where
  "toLowerCase s = map lower_char s"

text \<open>\<^verbatim>\<open>s.includes(n)\<close>: the text \<open>n\<close> occurs in \<open>s\<close>.\<close>

fun includes_str :: "string \<Rightarrow> string \<Rightarrow> bool" where
  "includes_str [] n = (n = [])"
| "includes_str (c # cs) n = (prefix n (c # cs) \<or> includes_str cs n)"

text \<open>
  \<^verbatim>\<open>encodeURIComponent\<close> of a text: letters, digits and \<^verbatim>\<open>- _ . ! ~ * ' ( )\<close>
  stay, every other byte of the UTF-8 encoding becomes \<^verbatim>\<open>%XX\<close>.
\<close>

definition unreserved :: "char \<Rightarrow> bool" where
  "unreserved c =
     (let k = (of_char c :: nat) in
      (65 \<le> k \<and> k \<le> 90) \<or> (97 \<le> k \<and> k \<le> 122) \<or> (48 \<le> k \<and> k \<le> 57)
      \<or> c \<in> set ''-_.!~*()'' \<or> k = 39)"

definition hex_digit :: "nat \<Rightarrow> char" where
  "hex_digit d = (if d < 10 then char_of (48 + d) else char_of (55 + d))"

definition percent_encode :: "char \<Rightarrow> string" where
  "percent_encode c =
     [CHR ''%'', hex_digit ((of_char c :: nat) div 16), hex_digit ((of_char c :: nat) mod 16)]"

definition encodeURIComponent :: "string \<Rightarrow> string" where
  "encodeURIComponent s = concat (map (\<lambda>c. if unreserved c then [c] else percent_encode c) s)"

section \<open>Property access\<close>

definition nullish :: "jsval \<Rightarrow> bool" where
  "nullish v = (v = JUndefined \<or> v = JNull)"

text \<open>
  Reading a named property of a value that is neither \<^verbatim>\<open>undefined\<close> nor
  \<^verbatim>\<open>null\<close>. The handlers read no name that an array, a string, a number or a
  boolean has, and none that an object inherits.
\<close>

fun prop_of :: "jsval \<Rightarrow> string \<Rightarrow> jsval" where
  "prop_of (JObj kvs) p = (case map_of kvs p of None \<Rightarrow> JUndefined | Some v \<Rightarrow> v)"
| "prop_of v p = JUndefined"

text \<open>
  Reading an index. Of a string it gives a one-character string, of which the handlers
  read only properties that no string has.
\<close>

fun index_of :: "jsval \<Rightarrow> nat \<Rightarrow> jsval" where
  "index_of (JArr xs) i = (if i < length xs then xs ! i else JUndefined)"
| "index_of (JStr s) i = (if i < length s then JStr [s ! i] else JUndefined)"
| "index_of (JObj kvs) i = prop_of (JObj kvs) (decimal i)"
| "index_of v i = JUndefined"

text \<open>\<^verbatim>\<open>v.p\<close>, \<^verbatim>\<open>v[i]\<close>, \<^verbatim>\<open>v?.p\<close> and \<^verbatim>\<open>a || b\<close>.\<close>

definition get_prop :: "jsval \<Rightarrow> string \<Rightarrow> exn + jsval" where
  "get_prop v p = (if nullish v then Inl (NullishRead v p) else Inr (prop_of v p))"

definition get_index :: "jsval \<Rightarrow> nat \<Rightarrow> exn + jsval" where
  "get_index v i = (if nullish v then Inl (NullishRead v (decimal i)) else Inr (index_of v i))"

definition opt_prop :: "jsval \<Rightarrow> string \<Rightarrow> jsval" where
  "opt_prop v p = (if nullish v then JUndefined else prop_of v p)"

definition or_else :: "jsval \<Rightarrow> jsval \<Rightarrow> jsval" where
  "or_else a b = (if truthy a then a else b)"

text \<open>
  A destructuring default (\<^verbatim>\<open>{ x = d } = obj\<close>) replaces \<^verbatim>\<open>undefined\<close> only;
  \<^verbatim>\<open>v.toLowerCase()\<close> gives the lowered text of a string and throws on every other
  value, which has no such method (\<open>x\<close> is the name of the variable, for the message).
\<close>

definition default_to :: "jsval \<Rightarrow> jsval \<Rightarrow> jsval" where
  "default_to v d = (if v = JUndefined then d else v)"

fun call_toLowerCase :: "string \<Rightarrow> jsval \<Rightarrow> exn + string" where
  "call_toLowerCase x (JStr s) = Inr (toLowerCase s)"
| "call_toLowerCase x JUndefined = Inl (NullishRead JUndefined ''toLowerCase'')"
| "call_toLowerCase x JNull = Inl (NullishRead JNull ''toLowerCase'')"
| "call_toLowerCase x v = Inl (NotAFunction x ''toLowerCase'')"

section \<open>The random source\<close>

text \<open>
  \<^verbatim>\<open>Math.random()\<close> returns a double in \<open>[0, 1)\<close>. The pair \<open>(m, q)\<close> stands for
  the number \<open>m / 2^q\<close>; the doubles in \<open>[0, 1)\<close> are exactly the pairs with
  \<open>m < 2^53\<close>, \<open>q \<le> 1074\<close> and \<open>m < 2^q\<close>.
\<close>

type_synonym dbl = "nat \<times> nat"

definition is_random :: "dbl \<Rightarrow> bool" where
  "is_random r = (fst r < 2 ^ 53 \<and> snd r \<le> 1074 \<and> fst r < 2 ^ snd r)"

text \<open>
  Rounding a numerator to 53 significant bits, to the nearest such value and to the even
  one of two equally near: what the double multiplication does to the exact product.
\<close>

definition round_to_53 :: "nat \<Rightarrow> nat" where
  "round_to_53 N =
     (let d = 2 ^ (bit_length N - 53); t = N div d; r = N mod d
      in if 2 * r < d \<or> (2 * r = d \<and> even t) then t * d else (t + 1) * d)"

text \<open>\<^verbatim>\<open>Math.random() * n\<close> for an integer constant \<open>n\<close>, and \<^verbatim>\<open>Math.floor\<close>.\<close>

definition mul_dbl :: "dbl \<Rightarrow> nat \<Rightarrow> dbl" where
  "mul_dbl r n = (round_to_53 (fst r * n), snd r)"

definition math_floor :: "dbl \<Rightarrow> int" where
  "math_floor x = int (fst x div 2 ^ snd x)"

section \<open>Requests, the world around a handler, and responses\<close>

text \<open>
  \<^verbatim>\<open>req.query\<close> and \<^verbatim>\<open>req.body\<close> are objects (the query parser and the JSON body
  parser leave an empty object when the request has no parameters) and are read by
  property name only; a name that is not there reads as \<open>JUndefined\<close>.
\<close>

type_synonym params = "string \<Rightarrow> jsval"

text \<open>
  What a handler can reach besides its request: the weather credential of the process
  environment, the answer of an outbound GET (\<open>Inl\<close> the message of the error
  \<^verbatim>\<open>axios.get\<close> rejects with, \<open>Inr\<close> the \<^verbatim>\<open>response.data\<close> it resolves with), and
  the successive results of \<^verbatim>\<open>Math.random()\<close> during the request.
\<close>

record world =
  api_key :: jsval
  axios_get :: "string \<Rightarrow> string + jsval"
  math_random :: "nat \<Rightarrow> dbl"

record wiki_summary =
  titulo :: jsval
  extracto :: jsval
  url :: jsval
  imagen :: jsval

record clima_report =
  ciudad :: jsval
  pais :: jsval
  temperatura :: jsval
  sensacionTermica :: jsval
  humedad :: jsval
  condicion :: jsval
  icono :: string

record vuelo =
  aerolinea :: string
  numeroVuelo :: string
  origen :: jsval
  destino :: jsval
  fecha :: jsval
  horaSalida :: string
  horaLlegada :: string
  duracion :: string
  precio :: int
  moneda :: string
  escalas :: nat

record hospedaje =
  nombre :: string
  tipo :: string
  ubicacion :: string
  precio :: int
  moneda :: string
  porNoche :: bool
  habitaciones :: nat
  banos :: nat
  capacidad :: nat
  calificacion :: real
  opiniones :: nat
  imagen :: string

record consejos =
  destino :: jsval
  tipoViaje :: jsval
  presupuesto :: jsval
  recomendaciones :: "string list"
  consejoPresupuesto :: string

text \<open>
  The object given to \<^verbatim>\<open>res.json\<close>: an error object with its \<^verbatim>\<open>error\<close> text and
  its optional \<^verbatim>\<open>mensaje\<close>, or the success payload of one endpoint.
\<close>

datatype payload =
    ErrorBody string "string option"
  | WikiBody wiki_summary
  | ClimaBody clima_report
  | VuelosBody "vuelo list"
  | HospedajesBody "hospedaje list"
  | ConsejosBody consejos

text \<open>
  What a request leaves behind: the status and the body of the response, and the URLs of
  the outbound requests made on the way.
\<close>

record outcome =
  status :: nat
  body :: payload
  calls :: "string list"

text \<open>
  A \<^verbatim>\<open>try\<close> block ends by a response (status and payload) or by an exception; the
  \<^verbatim>\<open>catch\<close> block of every handler answers 500 with its own label and the message
  of the exception.
\<close>

type_synonym attempt = "string list \<times> (exn + nat \<times> payload)"

definition try_catch :: "string \<Rightarrow> attempt \<Rightarrow> outcome" where
  "try_catch label a =
     (case snd a of
        Inl e \<Rightarrow> \<lparr>status = 500, body = ErrorBody label (Some (message e)), calls = fst a\<rparr>
      | Inr (st, b) \<Rightarrow> \<lparr>status = st, body = b, calls = fst a\<rparr>)"

text \<open>\<^verbatim>\<open>Math.floor(Math.random() * n)\<close>, on the \<open>i\<close>-th random number of the request.\<close>

definition random_int :: "world \<Rightarrow> nat \<Rightarrow> nat \<Rightarrow> int" where
  "random_int w i n = math_floor (mul_dbl (math_random w i) n)"

section \<open>GET /wiki\<close>

definition wiki_summary_of :: "jsval \<Rightarrow> exn + wiki_summary" where
  "wiki_summary_of data =
     bind_exn (get_prop data ''title'') (\<lambda>title.
     bind_exn (get_prop data ''extract'') (\<lambda>extract.
     bind_exn (get_prop data ''content_urls'') (\<lambda>content_urls.
     bind_exn (get_prop data ''thumbnail'') (\<lambda>thumbnail.
       Inr \<lparr>titulo = title,
            extracto = extract,
            url = or_else (opt_prop (opt_prop content_urls ''desktop'') ''page'') (JStr ''''),
            imagen = or_else (opt_prop thumbnail ''source'') JNull\<rparr>))))"

text \<open>
  The URL of the outbound request; building it converts \<^verbatim>\<open>ciudad\<close> to a string, which
  can throw, and then no request is made.
\<close>

definition wiki_url :: "jsval \<Rightarrow> exn + string" where
  "wiki_url c =
     bind_exn (to_string c) (\<lambda>s.
       Inr (''https://es.wikipedia.org/api/rest_v1/page/summary/'' @ encodeURIComponent s))"

definition get_wiki_try :: "world \<Rightarrow> params \<Rightarrow> attempt" where
  "get_wiki_try w q =
     (let ciudad = q ''ciudad'' in
      if \<not> truthy ciudad
      then ([], Inr (400, ErrorBody (''Se requiere el par'' @ a_acute @ ''metro ciudad'') None))
      else case wiki_url ciudad of
          Inl e \<Rightarrow> ([], Inl e)
        | Inr u \<Rightarrow>
            ([u], case axios_get w u of
                Inl m \<Rightarrow> Inl (RequestFailed m)
              | Inr data \<Rightarrow> bind_exn (wiki_summary_of data) (\<lambda>r. Inr (200, WikiBody r))))"

definition get_wiki :: "world \<Rightarrow> params \<Rightarrow> outcome" where
  "get_wiki w q = try_catch ''Error al consultar Wikipedia'' (get_wiki_try w q)"

section \<open>GET /clima\<close>

definition clima_report_of :: "jsval \<Rightarrow> exn + clima_report" where
  "clima_report_of data =
     bind_exn (get_prop data ''name'') (\<lambda>name.
     bind_exn (get_prop data ''sys'') (\<lambda>sys.
     bind_exn (get_prop sys ''country'') (\<lambda>country.
     bind_exn (get_prop data ''main'') (\<lambda>main.
     bind_exn (get_prop main ''temp'') (\<lambda>temp.
     bind_exn (get_prop main ''feels_like'') (\<lambda>feels_like.
     bind_exn (get_prop main ''humidity'') (\<lambda>humidity.
     bind_exn (get_prop data ''weather'') (\<lambda>weather.
     bind_exn (get_index weather 0) (\<lambda>weather0.
     bind_exn (get_prop weather0 ''description'') (\<lambda>description.
     bind_exn (get_prop weather0 ''icon'') (\<lambda>icon.
     bind_exn (to_string icon) (\<lambda>icon_text.
       Inr \<lparr>ciudad = name,
            pais = country,
            temperatura = temp,
            sensacionTermica = feels_like,
            humedad = humidity,
            condicion = description,
            icono = ''https://openweathermap.org/img/wn/'' @ icon_text @ ''@2x.png''\<rparr>))))))))))))"

definition clima_url :: "jsval \<Rightarrow> jsval \<Rightarrow> exn + string" where
  "clima_url c key =
     bind_exn (to_string c) (\<lambda>s.
     bind_exn (to_string key) (\<lambda>k.
       Inr (''https://api.openweathermap.org/data/2.5/weather?q='' @ encodeURIComponent s
              @ ''&units=metric&lang=es&appid='' @ k)))"

definition get_clima_try :: "world \<Rightarrow> params \<Rightarrow> attempt" where
  "get_clima_try w q =
     (let ciudad = q ''ciudad'' in
      if \<not> truthy ciudad
      then ([], Inr (400, ErrorBody (''Se requiere el par'' @ a_acute @ ''metro ciudad'') None))
      else let API_KEY = api_key w in
        if \<not> truthy API_KEY
        then ([], Inr (500, ErrorBody ''API key de OpenWeather no configurada'' None))
        else case clima_url ciudad API_KEY of
            Inl e \<Rightarrow> ([], Inl e)
          | Inr u \<Rightarrow>
              ([u], case axios_get w u of
                  Inl m \<Rightarrow> Inl (RequestFailed m)
                | Inr data \<Rightarrow> bind_exn (clima_report_of data) (\<lambda>r. Inr (200, ClimaBody r))))"

definition get_clima :: "world \<Rightarrow> params \<Rightarrow> outcome" where
  "get_clima w q = try_catch ''Error al consultar el clima'' (get_clima_try w q)"

section \<open>POST /vuelos\<close>

definition post_vuelos_try :: "world \<Rightarrow> params \<Rightarrow> attempt" where
  "post_vuelos_try w b =
     (let origen = b ''origen''; destino = b ''destino''; fecha = b ''fecha'' in
      if \<not> truthy origen \<or> \<not> truthy destino \<or> \<not> truthy fecha
      then ([], Inr (400, ErrorBody (''Se requieren los par'' @ a_acute @ ''metros origen, destino y fecha'') None))
      else ([], Inr (200, VuelosBody
        [\<lparr>aerolinea = ''Avianca'',
          numeroVuelo = ''AV'' @ integer_to_string (random_int w 0 1000),
          origen = origen, destino = destino, fecha = fecha,
          horaSalida = ''08:30'', horaLlegada = ''10:45'', duracion = ''2h 15m'',
          precio = random_int w 1 300 + 200,
          moneda = ''USD'', escalas = 0\<rparr>,
         \<lparr>aerolinea = ''LATAM'',
          numeroVuelo = ''LA'' @ integer_to_string (random_int w 2 1000),
          origen = origen, destino = destino, fecha = fecha,
          horaSalida = ''12:15'', horaLlegada = ''14:50'', duracion = ''2h 35m'',
          precio = random_int w 3 300 + 180,
          moneda = ''USD'', escalas = 1\<rparr>,
         \<lparr>aerolinea = ''Copa Airlines'',
          numeroVuelo = ''CM'' @ integer_to_string (random_int w 4 1000),
          origen = origen, destino = destino, fecha = fecha,
          horaSalida = ''16:40'', horaLlegada = ''19:10'', duracion = ''2h 30m'',
          precio = random_int w 5 300 + 220,
          moneda = ''USD'', escalas = 0\<rparr>])))"

definition post_vuelos :: "world \<Rightarrow> params \<Rightarrow> outcome" where
  "post_vuelos w b = try_catch ''Error al buscar vuelos'' (post_vuelos_try w b)"

section \<open>GET /hospedaje\<close>

text \<open>
  The three template literals of \<^verbatim>\<open>ubicacion\<close> convert \<^verbatim>\<open>ciudad\<close> to a string, the
  first of them before any random number is drawn; the conversion gives the same text
  each time, or throws the first time.
\<close>

definition get_hospedaje_try :: "world \<Rightarrow> params \<Rightarrow> attempt" where
  "get_hospedaje_try w q =
     (let ciudad = q ''ciudad''; fechaEntrada = q ''fechaEntrada''; fechaSalida = q ''fechaSalida'' in
      if \<not> truthy ciudad
      then ([], Inr (400, ErrorBody (''Se requiere el par'' @ a_acute @ ''metro ciudad'') None))
      else ([], bind_exn (to_string ciudad) (\<lambda>ciudad_text. Inr (200, HospedajesBody
        [\<lparr>nombre = ''Apartamento C'' @ e_acute @ ''ntrico'',
          tipo = ''Apartamento entero'',
          ubicacion = ''Centro de '' @ ciudad_text,
          precio = random_int w 0 100 + 50,
          moneda = ''USD'', porNoche = True,
          habitaciones = 2, banos = 1, capacidad = 4,
          calificacion = 4.8, opiniones = 123,
          imagen = ''https://via.placeholder.com/300x200?text=Apartamento''\<rparr>,
         \<lparr>nombre = ''Hotel Boutique'',
          tipo = ''Habitaci'' @ o_acute @ ''n de hotel'',
          ubicacion = ''Zona tur'' @ i_acute @ ''stica de '' @ ciudad_text,
          precio = random_int w 1 150 + 80,
          moneda = ''USD'', porNoche = True,
          habitaciones = 1, banos = 1, capacidad = 2,
          calificacion = 4.6, opiniones = 87,
          imagen = ''https://via.placeholder.com/300x200?text=Hotel''\<rparr>,
         \<lparr>nombre = ''Casa Familiar'',
          tipo = ''Casa entera'',
          ubicacion = ''Zona residencial de '' @ ciudad_text,
          precio = random_int w 2 200 + 120,
          moneda = ''USD'', porNoche = True,
          habitaciones = 3, banos = 2, capacidad = 6,
          calificacion = 4.9, opiniones = 45,
          imagen = ''https://via.placeholder.com/300x200?text=Casa''\<rparr>]))))"

definition get_hospedaje :: "world \<Rightarrow> params \<Rightarrow> outcome" where
  "get_hospedaje w q = try_catch ''Error al buscar hospedaje'' (get_hospedaje_try w q)"

section \<open>POST /consejos\<close>

text \<open>
  The four recommendation arrays and the three budget notes, for the text \<open>d\<close> that the
  template literals make of \<^verbatim>\<open>destino\<close>.
\<close>

definition recomendaciones_negocio :: "string \<Rightarrow> string list" where
  "recomendaciones_negocio d =
     [''Hoteles de negocios cercanos al centro financiero de '' @ d,
      ''Restaurantes con ambiente tranquilo para reuniones en '' @ d,
      ''Servicios de taxi o transporte ejecutivo en '' @ d,
      ''Espacios de coworking populares en '' @ d,
      ''Conexiones Wi-Fi confiables en '' @ d]"

definition recomendaciones_aventura :: "string \<Rightarrow> string list" where
  "recomendaciones_aventura d =
     [''Rutas de senderismo populares cerca de '' @ d,
      ''Empresas de deportes extremos en '' @ d,
      ''Parques naturales que debes visitar en '' @ d,
      ''Equipamiento necesario para actividades al aire libre en '' @ d,
      ''Hospedajes con acceso r'' @ a_acute @ ''pido a actividades de aventura en '' @ d]"

definition recomendaciones_cultural :: "string \<Rightarrow> string list" where
  "recomendaciones_cultural d =
     [''Museos imperdibles en '' @ d,
      ''Sitios hist'' @ o_acute @ ''ricos para visitar en '' @ d,
      ''Eventos culturales programados en '' @ d,
      ''Tours guiados por el patrimonio de '' @ d,
      ''Gastronom'' @ i_acute @ ''a t'' @ i_acute @ ''pica que debes probar en '' @ d]"

definition recomendaciones_vacaciones :: "string \<Rightarrow> string list" where
  "recomendaciones_vacaciones d =
     [''Atracciones tur'' @ i_acute @ ''sticas principales de '' @ d,
      ''Mejores playas o parques en '' @ d,
      ''Opciones de entretenimiento familiar en '' @ d,
      ''Restaurantes mejor valorados de '' @ d,
      ''Consejos de seguridad para turistas en '' @ d]"

definition consejo_bajo :: "string \<Rightarrow> string" where
  "consejo_bajo d =
     ''Para ahorrar dinero en '' @ d @ '', considera usar transporte p'' @ u_acute
       @ ''blico, comer en mercados locales y buscar actividades gratuitas como parques y museos con entrada libre.''"

definition consejo_alto :: "string \<Rightarrow> string" where
  "consejo_alto d =
     ''Con un presupuesto alto en '' @ d
       @ '', puedes disfrutar de hoteles boutique de lujo, restaurantes exclusivos y excursiones privadas personalizadas.''"

definition consejo_medio :: "string \<Rightarrow> string" where
  "consejo_medio d =
     ''Con un presupuesto medio en '' @ d @ '', equilibra experiencias premium con opciones m''
       @ a_acute @ ''s econ'' @ o_acute
       @ ''micas. Considera un hotel de 3-4 estrellas y mezcla restaurantes de diferentes categor''
       @ i_acute @ ''as.''"

text \<open>
  The handler first calls \<^verbatim>\<open>tipoViaje.toLowerCase()\<close>, then builds the selected array,
  whose first template literal converts \<^verbatim>\<open>destino\<close> to a string, then calls
  \<^verbatim>\<open>presupuesto.toLowerCase()\<close> and builds the note; each of the three can throw.
\<close>

definition post_consejos_try :: "world \<Rightarrow> params \<Rightarrow> attempt" where
  "post_consejos_try w b =
     (let destino = b ''destino'';
          tipoViaje = default_to (b ''tipoViaje'') (JStr ''vacaciones'');
          presupuesto = default_to (b ''presupuesto'') (JStr ''medio'') in
      if \<not> truthy destino
      then ([], Inr (400, ErrorBody (''Se requiere el par'' @ a_acute @ ''metro destino'') None))
      else ([],
        bind_exn (call_toLowerCase ''tipoViaje'' tipoViaje) (\<lambda>tipo_lower.
        bind_exn (to_string destino) (\<lambda>destino_text.
          let recomendaciones =
                (if includes_str tipo_lower ''negocio'' then recomendaciones_negocio destino_text
                 else if includes_str tipo_lower ''aventura'' then recomendaciones_aventura destino_text
                 else if includes_str tipo_lower ''cultural'' then recomendaciones_cultural destino_text
                 else recomendaciones_vacaciones destino_text) in
          bind_exn (call_toLowerCase ''presupuesto'' presupuesto) (\<lambda>presupuesto_lower.
            let consejoPresupuesto =
                  (if presupuesto_lower = ''bajo'' then consejo_bajo destino_text
                   else if presupuesto_lower = ''alto'' then consejo_alto destino_text
                   else consejo_medio destino_text) in
            Inr (200, ConsejosBody
              \<lparr>destino = destino, tipoViaje = tipoViaje, presupuesto = presupuesto,
               recomendaciones = recomendaciones,
               consejoPresupuesto = consejoPresupuesto\<rparr>))))))"

definition post_consejos :: "world \<Rightarrow> params \<Rightarrow> outcome" where
  "post_consejos w b = try_catch ''Error al generar recomendaciones'' (post_consejos_try w b)"

section \<open>Notions of the specification\<close>

text \<open>
  Two letters are the same up to case when they are equal or one is the capital of the
  other; \<open>ci_equal\<close> is an exact case-insensitive match of two texts, \<open>ci_contains s n\<close>
  a case-insensitive substring match of \<open>n\<close> against \<open>s\<close>.
\<close>

definition same_letter :: "char \<Rightarrow> char \<Rightarrow> bool" where
  "same_letter x y =
     (x = y \<or> (is_upper x \<and> (of_char y :: nat) = of_char x + 32)
            \<or> (is_upper y \<and> (of_char x :: nat) = of_char y + 32))"

definition ci_equal :: "string \<Rightarrow> string \<Rightarrow> bool" where
  "ci_equal s n = list_all2 same_letter s n"

fun ci_prefix :: "string \<Rightarrow> string \<Rightarrow> bool" where
  "ci_prefix [] s = True"
| "ci_prefix (x # xs) [] = False"
| "ci_prefix (x # xs) (y # ys) = (same_letter x y \<and> ci_prefix xs ys)"

fun ci_contains :: "string \<Rightarrow> string \<Rightarrow> bool" where
  "ci_contains [] n = (n = [])"
| "ci_contains (c # cs) n = (ci_prefix n (c # cs) \<or> ci_contains cs n)"

text \<open>An optional text parameter: absent or a string; and its text, with a default.\<close>

fun text_or_absent :: "jsval \<Rightarrow> bool" where
  "text_or_absent JUndefined = True"
| "text_or_absent (JStr s) = True"
| "text_or_absent v = False"

fun text_or :: "jsval \<Rightarrow> string \<Rightarrow> string" where
  "text_or (JStr s) d = s"
| "text_or v d = d"

text \<open>The flight numbers of the specification: \<^verbatim>\<open>^(AV|LA|CM)\d{1,3}$\<close>.\<close>

definition flight_number_format :: "string \<Rightarrow> bool" where
  "flight_number_format s =
     ((take 2 s = ''AV'' \<or> take 2 s = ''LA'' \<or> take 2 s = ''CM'')
      \<and> 1 \<le> length (drop 2 s) \<and> length (drop 2 s) \<le> 3 \<and> list_all is_digit (drop 2 s))"

text \<open>
  Following a path of property names into a document; \<open>JUndefined\<close> when a step of the
  path is absent.
\<close>

fun path_of :: "jsval \<Rightarrow> string list \<Rightarrow> jsval" where
  "path_of v [] = v"
| "path_of v (p # ps) = (if nullish v then JUndefined else path_of (prop_of v p) ps)"

text \<open>The 400 responses to a missing parameter, the 500 response of a \<^verbatim>\<open>catch\<close> block,
  and the 500 response of /clima when the process has no credential.\<close>

definition requiere_ciudad :: outcome where
  "requiere_ciudad =
     \<lparr>status = 400, body = ErrorBody (''Se requiere el par'' @ a_acute @ ''metro ciudad'') None,
      calls = []\<rparr>"

definition requieren_vuelos :: outcome where
  "requieren_vuelos =
     \<lparr>status = 400,
      body = ErrorBody (''Se requieren los par'' @ a_acute @ ''metros origen, destino y fecha'') None,
      calls = []\<rparr>"

definition requiere_destino :: outcome where
  "requiere_destino =
     \<lparr>status = 400, body = ErrorBody (''Se requiere el par'' @ a_acute @ ''metro destino'') None,
      calls = []\<rparr>"

definition error_500 :: "string \<Rightarrow> string \<Rightarrow> string list \<Rightarrow> outcome" where
  "error_500 label m cs = \<lparr>status = 500, body = ErrorBody label (Some m), calls = cs\<rparr>"

definition sin_credencial :: outcome where
  "sin_credencial =
     \<lparr>status = 500, body = ErrorBody ''API key de OpenWeather no configurada'' None, calls = []\<rparr>"

section \<open>Example requests\<close>

text \<open>
  Six random numbers: one half, the largest double below one, zero, the smallest positive
  double, a number whose product with 1000 is rounded up to 999 by the multiplication,
  and three quarters. And a source that always gives one quarter.
\<close>

definition draws_a :: "nat \<Rightarrow> dbl" where
  "draws_a i =
     (if i = 0 then (1, 1)
      else if i = 1 then (9007199254740991, 53)
      else if i = 2 then (0, 0)
      else if i = 3 then (1, 1074)
      else if i = 4 then (8998192055486251, 53)
      else (3, 2))"

definition draws_b :: "nat \<Rightarrow> dbl" where
  "draws_b i = (1, 2)"

definition lima_summary :: jsval where
  "lima_summary =
     JObj [(''title'', JStr ''Lima''),
           (''extract'', JStr (''Lima es la capital del Per'' @ u_acute)),
           (''content_urls'',
              JObj [(''desktop'', JObj [(''page'', JStr ''https://es.wikipedia.org/wiki/Lima'')])])]"

definition upstream :: "string \<Rightarrow> string + jsval" where
  "upstream u =
     (if u = ''https://es.wikipedia.org/api/rest_v1/page/summary/Lima'' then Inr lima_summary
      else Inl ''Request failed with status code 404'')"

definition world_a :: world where
  "world_a = \<lparr>api_key = JStr ''k3y'', axios_get = upstream, math_random = draws_a\<rparr>"

definition world_b :: world where
  "world_b = \<lparr>api_key = JUndefined, axios_get = upstream, math_random = draws_b\<rparr>"

definition no_params :: params where
  "no_params = (\<lambda>k. JUndefined)"

definition vuelos_body :: params where
  "vuelos_body =
     no_params(''origen'' := JStr ''Bogota'', ''destino'' := JStr ''Lima'',
               ''fecha'' := JStr ''2024-05-01'')"

definition world_a' :: world where
  "world_a' = world_a\<lparr>math_random := draws_b\<rparr>"

definition lima_query :: params where
  "lima_query = no_params(''ciudad'' := JStr ''Lima'')"

definition lima_query_fechas :: params where
  "lima_query_fechas =
     lima_query(''fechaEntrada'' := JStr ''2024-05-01'', ''fechaSalida'' := JStr ''2024-05-08'')"

definition cusco_query :: params where
  "cusco_query = no_params(''ciudad'' := JStr ''Cusco'')"

definition paris_aventura :: params where
  "paris_aventura =
     no_params(''destino'' := JStr ''Paris'', ''tipoViaje'' := JStr ''Viaje de AVENTURA'')"

definition paris_bajo :: params where
  "paris_bajo = no_params(''destino'' := JStr ''Paris'', ''presupuesto'' := JStr ''Bajo'')"

definition paris_tipo_null :: params where
  "paris_tipo_null = no_params(''destino'' := JStr ''Paris'', ''tipoViaje'' := JNull)"

definition paris_presupuesto_null :: params where
  "paris_presupuesto_null = no_params(''destino'' := JStr ''Paris'', ''presupuesto'' := JNull)"

text \<open>
  The numbers 1 and 5; a request whose \<open>tipoViaje\<close> or \<open>presupuesto\<close> is a number; and
  requests whose \<open>destino\<close> or \<open>ciudad\<close> is an object with a property \<^verbatim>\<open>toString\<close>:
  the body \<^verbatim>\<open>{"destino": {"toString": 1}}\<close> and the query
  \<^verbatim>\<open>?ciudad[toString]=x\<close> as a parser that reads brackets as nesting gives it.
\<close>

definition one :: double where
  "one = 0x3FF0000000000000"

definition five :: double where
  "five = 0x4014000000000000"

definition paris_tipo_5 :: params where
  "paris_tipo_5 = no_params(''destino'' := JStr ''Paris'', ''tipoViaje'' := JNum five)"

definition paris_presupuesto_5 :: params where
  "paris_presupuesto_5 = no_params(''destino'' := JStr ''Paris'', ''presupuesto'' := JNum five)"

definition destino_objeto :: params where
  "destino_objeto = no_params(''destino'' := JObj [(''toString'', JNum one)])"

definition destino_objeto_bajo :: params where
  "destino_objeto_bajo = destino_objeto(''presupuesto'' := JStr ''bajo'')"

definition ciudad_objeto :: params where
  "ciudad_objeto = no_params(''ciudad'' := JObj [(''toString'', JStr ''x'')])"

section \<open>The double product stays below its integer factor\<close>

lemma bit_length_0: "bit_length 0 = 0"
  by (simp add: bit_length.simps)

lemma bit_length_lower: "0 < n \<Longrightarrow> 2 ^ (bit_length n - 1) \<le> n"
proof (induction n rule: bit_length.induct)
  case (1 n)
  show ?case
  proof (cases "n div 2 = 0")
    case True
    with "1.prems" have "n = 1" by (simp add: div_eq_0_iff) 
    then show ?thesis by (simp add: bit_length.simps)
  next
    case False
    then have pos: "0 < n div 2" by simp
    from "1.prems" have n0: "n \<noteq> 0" by simp
    have ih: "2 ^ (bit_length (n div 2) - 1) \<le> n div 2" using "1.IH"[OF n0 pos] .
    have bl: "bit_length n = Suc (bit_length (n div 2))" using n0 by (subst bit_length.simps) simp
    have "bit_length (n div 2) \<noteq> 0" using pos by (subst bit_length.simps) simp
    then have "bit_length n - 1 = Suc (bit_length (n div 2) - 1)" using bl by simp
    then have "(2::nat) ^ (bit_length n - 1) = 2 * 2 ^ (bit_length (n div 2) - 1)" by simp
    also have "\<dots> \<le> 2 * (n div 2)" using ih by simp
    also have "\<dots> \<le> n" by simp
    finally show ?thesis .
  qed
qed

lemma round_to_53_upper: "2 * round_to_53 N \<le> 2 * N + 2 ^ (bit_length N - 53)"
proof -
  define d :: nat where "d = 2 ^ (bit_length N - 53)"
  define t where "t = N div d"
  define r where "r = N mod d"
  have N: "N = t * d + r" by (simp add: t_def r_def)
  have R: "round_to_53 N = (if 2 * r < d \<or> (2 * r = d \<and> even t) then t * d else (t + 1) * d)"
    by (simp add: round_to_53_def Let_def d_def t_def r_def)
  show ?thesis
  proof (cases "2 * r < d \<or> (2 * r = d \<and> even t)")
    case True
    then have "round_to_53 N = t * d" using R by simp
    then show ?thesis using N by simp
  next
    case False
    then have up: "round_to_53 N = t * d + d" and r: "d \<le> 2 * r" using R by auto
    have "2 * round_to_53 N = 2 * (t * d) + d + d" using up by simp
    also have "\<dots> \<le> 2 * (t * d) + 2 * r + d" using r by simp
    also have "\<dots> = 2 * N + d" using N by simp
    finally show ?thesis by (simp add: d_def)
  qed
qed

lemma round_to_53_small: "bit_length N \<le> 53 \<Longrightarrow> round_to_53 N = N"
  by (simp add: round_to_53_def)

text \<open>
  For a double \<open>m / 2^q\<close> below one and an integer \<open>n > 0\<close> the exact product is at most
  \<open>n - n / 2^q\<close>. When it has more than 53 bits, rounding moves it by at most half a unit
  of the last place kept, and that half unit is below \<open>n\<close> units of \<open>1 / 2^q\<close>: the
  rounded product is still below \<open>n\<close>, and so is its floor.
\<close>

lemma math_floor_mul_dbl_less:
  assumes r: "is_random r" and n: "0 < n"
  shows "math_floor (mul_dbl r n) < int n" and "0 \<le> math_floor (mul_dbl r n)"
proof -
  obtain m q where rq: "r = (m, q)" by (cases r)
  from r rq have m53: "m < 2 ^ 53" and mq: "m < 2 ^ q" by (simp_all add: is_random_def)
  define N where "N = m * n"
  have Nle: "N + n \<le> 2 ^ q * n"
  proof -
    have "Suc m \<le> 2 ^ q" using mq by simp
    then have "Suc m * n \<le> 2 ^ q * n" by (rule mult_le_mono1)
    then show ?thesis by (simp add: N_def)
  qed
  have R: "round_to_53 N < 2 ^ q * n"
  proof (cases "bit_length N \<le> 53")
    case True
    then have "round_to_53 N = N" by (rule round_to_53_small)
    with Nle n show ?thesis by simp
  next
    case False
    define s where "s = bit_length N - 53"
    from False have s: "bit_length N - 1 = 52 + s" and spos: "0 < s" by (simp_all add: s_def)
    have Npos: "0 < N" using False by (cases "N = 0") (simp_all add: bit_length_0)
    have "2 ^ (52 + s) \<le> N" using bit_length_lower[OF Npos] s by simp
    also have "N < 2 ^ 53 * n" unfolding N_def using m53 n by simp
    finally have "(2::nat) ^ 52 * 2 ^ s < 2 ^ 52 * (2 * n)" by (simp add: power_add)
    then have "(2::nat) ^ s < 2 * n" by simp
    then have "2 * round_to_53 N < 2 * N + 2 * n"
      using round_to_53_upper[of N] by (simp add: s_def)
    then show ?thesis using Nle by simp
  qed
  have "fst (mul_dbl r n) div 2 ^ q < n"
    using R by (simp add: mul_dbl_def rq N_def less_mult_imp_div_less mult.commute)
  then show "math_floor (mul_dbl r n) < int n"
    by (simp add: math_floor_def mul_dbl_def rq)
  show "0 \<le> math_floor (mul_dbl r n)" by (simp add: math_floor_def)
qed

lemma random_int_range:
  assumes "is_random (math_random w i)" and "0 < n"
  shows "0 \<le> random_int w i n" and "random_int w i n < int n"
  using math_floor_mul_dbl_less[OF assms] by (simp_all add: random_int_def)

section \<open>Decimal digits\<close>

lemma digit_char_is_digit: "d < 10 \<Longrightarrow> is_digit (digit_char d)"
  by (simp add: is_digit_def digit_char_def)

lemma decimal_digits: "list_all is_digit (decimal n)"
  by (induction n rule: decimal.induct) (subst decimal.simps, simp add: digit_char_is_digit)

lemma decimal_length: "n < 1000 \<Longrightarrow> 1 \<le> length (decimal n) \<and> length (decimal n) \<le> 3"
proof -
  assume n: "n < 1000"
  have one: "\<And>k. k < 10 \<Longrightarrow> length (decimal k) = 1" by (simp add: decimal.simps)
  have two: "\<And>k. k < 100 \<Longrightarrow> length (decimal k) \<le> 2"
    by (subst decimal.simps) (simp add: one)
  have "length (decimal n) \<le> 3" using n two[of "n div 10"]
    by (subst decimal.simps) simp
  moreover have "1 \<le> length (decimal n)" by (subst decimal.simps) simp
  ultimately show ?thesis by simp
qed

lemma integer_to_string_nat:
  "0 \<le> k \<Longrightarrow> k < 2 ^ 53 \<Longrightarrow> integer_to_string k = decimal (nat k)"
  by (simp add: integer_to_string_def Let_def nat_less_iff)

lemma flight_number_format_decimal:
  assumes "n < 1000" and "p = ''AV'' \<or> p = ''LA'' \<or> p = ''CM''"
  shows "flight_number_format (p @ decimal n)"
proof -
  from assms(2) have "length p = 2" by auto
  then have "take 2 (p @ decimal n) = p" "drop 2 (p @ decimal n) = decimal n" by simp_all
  then show ?thesis
    using assms decimal_length[OF assms(1)] decimal_digits[of n]
    by (simp add: flight_number_format_def)
qed

section \<open>Lower-casing and case-insensitive matching\<close>

lemma includes_str_sublist: "includes_str s n \<longleftrightarrow> sublist n s"
  by (induction s) (auto simp: sublist_Cons_right)

lemma of_char_lower_char:
  "(of_char (lower_char c) :: nat) = (if is_upper c then of_char c + 32 else of_char c)"
  by (simp add: lower_char_def is_upper_def)

lemma char_eq_iff_of_char: "x = y \<longleftrightarrow> (of_char x :: nat) = of_char y"
  by (metis char_of_char)

lemma lower_char_eq_iff: "lower_char x = lower_char y \<longleftrightarrow> same_letter x y"
proof -
  define a :: nat where "a = of_char x"
  define b :: nat where "b = of_char y"
  have xy: "x = y \<longleftrightarrow> a = b" unfolding a_def b_def by (rule char_eq_iff_of_char)
  have "lower_char x = lower_char y \<longleftrightarrow> (of_char (lower_char x) :: nat) = of_char (lower_char y)"
    by (rule char_eq_iff_of_char)
  also have "\<dots> \<longleftrightarrow>
      (if 65 \<le> a \<and> a \<le> 90 then a + 32 else a) = (if 65 \<le> b \<and> b \<le> 90 then b + 32 else b)"
    by (simp only: of_char_lower_char is_upper_def a_def b_def)
  also have "\<dots> \<longleftrightarrow> a = b \<or> (65 \<le> a \<and> a \<le> 90 \<and> b = a + 32) \<or> (65 \<le> b \<and> b \<le> 90 \<and> a = b + 32)"
    by auto
  also have "\<dots> \<longleftrightarrow> same_letter x y"
    by (simp only: same_letter_def is_upper_def xy a_def[symmetric] b_def[symmetric] conj_assoc)
  finally show ?thesis .
qed

lemma prefix_toLowerCase:
  "toLowerCase n = n \<Longrightarrow> prefix n (toLowerCase s) \<longleftrightarrow> ci_prefix n s"
proof (induction n s rule: ci_prefix.induct)
  case (3 x xs y ys)
  from "3.prems" have x: "lower_char x = x" and xs: "toLowerCase xs = xs"
    by (simp_all add: toLowerCase_def)
  have "prefix (x # xs) (toLowerCase (y # ys)) \<longleftrightarrow> x = lower_char y \<and> prefix xs (toLowerCase ys)"
    by (simp add: toLowerCase_def)
  also have "x = lower_char y \<longleftrightarrow> same_letter x y"
    using lower_char_eq_iff[of x y] x by simp
  finally show ?case using "3.IH"[OF xs] by simp
qed (simp_all add: toLowerCase_def)

text \<open>
  Looking for a lower-case word in the lowered text, as the handler does, is a
  case-insensitive substring match; comparing the lowered text with a lower-case word is
  an exact case-insensitive match.
\<close>

lemma includes_toLowerCase:
  "toLowerCase n = n \<Longrightarrow> includes_str (toLowerCase s) n \<longleftrightarrow> ci_contains s n"
proof (induction s)
  case Nil
  then show ?case by (simp add: toLowerCase_def)
next
  case (Cons c cs)
  have "includes_str (toLowerCase (c # cs)) n \<longleftrightarrow>
        prefix n (toLowerCase (c # cs)) \<or> includes_str (toLowerCase cs) n"
    by (simp add: toLowerCase_def)
  then show ?case using Cons prefix_toLowerCase[of n "c # cs"] by simp
qed

lemma toLowerCase_eq_iff:
  "toLowerCase n = n \<Longrightarrow> toLowerCase s = n \<longleftrightarrow> ci_equal s n"
proof (induction s arbitrary: n)
  case Nil
  then show ?case by (auto simp: toLowerCase_def ci_equal_def)
next
  case (Cons c cs)
  show ?case
  proof (cases n)
    case Nil
    then show ?thesis by (simp add: toLowerCase_def ci_equal_def)
  next
    case (Cons x xs)
    with Cons.prems have x: "lower_char x = x" and xs: "toLowerCase xs = xs"
      by (simp_all add: toLowerCase_def)
    have "lower_char c = x \<longleftrightarrow> same_letter c x"
      using lower_char_eq_iff[of c x] x by simp
    then show ?thesis
      using Cons.IH[OF xs] Cons by (simp add: toLowerCase_def ci_equal_def)
  qed
qed

text \<open>
  \<open>ci_contains s n\<close> says that some part of \<open>s\<close> is \<open>n\<close> up to the case of its letters.
\<close>

lemma ci_prefix_iff: "ci_prefix n s \<longleftrightarrow> (\<exists>m r. s = m @ r \<and> ci_equal m n)"
proof (induction n s rule: ci_prefix.induct)
  case (1 s)
  show ?case by (auto simp: ci_equal_def)
next
  case (2 x xs)
  show ?case by (auto simp: ci_equal_def)
next
  case (3 x xs y ys)
  show ?case
  proof
    assume "ci_prefix (x # xs) (y # ys)"
    then obtain m r where "ys = m @ r" "ci_equal m xs" and xy: "same_letter x y" using 3 by auto
    then have "y # ys = (y # m) @ r \<and> ci_equal (y # m) (x # xs)"
      using xy by (auto simp: ci_equal_def same_letter_def)
    then show "\<exists>m r. y # ys = m @ r \<and> ci_equal m (x # xs)" by blast
  next
    assume "\<exists>m r. y # ys = m @ r \<and> ci_equal m (x # xs)"
    then obtain m r where mr: "y # ys = m @ r" "ci_equal m (x # xs)" by blast
    then obtain m' where m: "m = y # m'" "ys = m' @ r"
      by (cases m) (auto simp: ci_equal_def)
    with mr have "same_letter y x" "ci_equal m' xs" by (auto simp: ci_equal_def)
    then show "ci_prefix (x # xs) (y # ys)" using 3 m by (auto simp: same_letter_def)
  qed
qed

lemma ci_contains_iff: "ci_contains s n \<longleftrightarrow> (\<exists>p m r. s = p @ m @ r \<and> ci_equal m n)"
proof (induction s)
  case Nil
  show ?case by (auto simp: ci_equal_def)
next
  case (Cons c cs)
  show ?case
  proof
    assume "ci_contains (c # cs) n"
    then consider "ci_prefix n (c # cs)" | "ci_contains cs n" by auto
    then show "\<exists>p m r. c # cs = p @ m @ r \<and> ci_equal m n"
    proof cases
      case 1
      then obtain m r where "c # cs = m @ r" "ci_equal m n" using ci_prefix_iff by blast
      then have "c # cs = [] @ m @ r \<and> ci_equal m n" by simp
      then show ?thesis by blast
    next
      case 2
      then obtain p m r where "cs = p @ m @ r" "ci_equal m n" using Cons by blast
      then have "c # cs = (c # p) @ m @ r \<and> ci_equal m n" by simp
      then show ?thesis by blast
    qed
  next
    assume "\<exists>p m r. c # cs = p @ m @ r \<and> ci_equal m n"
    then obtain p m r where pmr: "c # cs = p @ m @ r" "ci_equal m n" by blast
    show "ci_contains (c # cs) n"
    proof (cases p)
      case Nil
      with pmr have "ci_prefix n (c # cs)" using ci_prefix_iff[of n "c # cs"] by auto
      then show ?thesis by simp
    next
      case (Cons a p')
      with pmr have "cs = p' @ m @ r" by simp
      then have "ci_contains cs n" using pmr Cons.IH by blast
      then show ?thesis by simp
    qed
  qed
qed

lemma needles_lower:
  "toLowerCase ''negocio'' = ''negocio''" "toLowerCase ''aventura'' = ''aventura''"
  "toLowerCase ''cultural'' = ''cultural''" "toLowerCase ''bajo'' = ''bajo''"
  "toLowerCase ''alto'' = ''alto''"
  by (simp_all add: toLowerCase_def lower_char_def is_upper_def)

lemma includes_needles:
  "includes_str (toLowerCase s) ''negocio'' = ci_contains s ''negocio''"
  "includes_str (toLowerCase s) ''aventura'' = ci_contains s ''aventura''"
  "includes_str (toLowerCase s) ''cultural'' = ci_contains s ''cultural''"
  by (rule includes_toLowerCase, rule needles_lower)+

lemma equals_needles:
  "(toLowerCase s = ''bajo'') = ci_equal s ''bajo''"
  "(toLowerCase s = ''alto'') = ci_equal s ''alto''"
  by (rule toLowerCase_eq_iff, rule needles_lower)+

lemma vacaciones_no_match:
  "\<not> ci_contains ''vacaciones'' ''negocio''" "\<not> ci_contains ''vacaciones'' ''aventura''"
  "\<not> ci_contains ''vacaciones'' ''cultural''"
  by (simp_all add: same_letter_def is_upper_def)

section \<open>The handlers step by step\<close>

lemma bind_exn_Inr [simp]: "bind_exn (Inr x) f = f x"
  by (simp add: bind_exn_def)

lemma bind_exn_Inl [simp]: "bind_exn (Inl e) f = Inl e"
  by (simp add: bind_exn_def)

lemma try_catch_Inl:
  "snd a = Inl e \<Longrightarrow> try_catch label a = error_500 label (message e) (fst a)"
  by (simp add: try_catch_def error_500_def)

lemma try_catch_500:
  assumes "status (try_catch label a) = 500"
  shows "(\<exists>m. body (try_catch label a) = ErrorBody label (Some m))
    \<or> (\<exists>b. snd a = Inr (500, b) \<and> body (try_catch label a) = b)"
  using assms by (cases "snd a") (auto simp: try_catch_def)

lemma get_wiki_falsy: "\<not> truthy (q ''ciudad'') \<Longrightarrow> get_wiki w q = requiere_ciudad"
  by (simp add: get_wiki_def get_wiki_try_def try_catch_def requiere_ciudad_def)

lemma get_clima_falsy: "\<not> truthy (q ''ciudad'') \<Longrightarrow> get_clima w q = requiere_ciudad"
  by (simp add: get_clima_def get_clima_try_def try_catch_def requiere_ciudad_def)

lemma get_hospedaje_falsy: "\<not> truthy (q ''ciudad'') \<Longrightarrow> get_hospedaje w q = requiere_ciudad"
  by (simp add: get_hospedaje_def get_hospedaje_try_def try_catch_def requiere_ciudad_def)

lemma post_vuelos_falsy:
  "\<not> truthy (b ''origen'') \<or> \<not> truthy (b ''destino'') \<or> \<not> truthy (b ''fecha'')
   \<Longrightarrow> post_vuelos w b = requieren_vuelos"
  by (auto simp add: post_vuelos_def post_vuelos_try_def try_catch_def requieren_vuelos_def)

lemma post_consejos_falsy: "\<not> truthy (b ''destino'') \<Longrightarrow> post_consejos w b = requiere_destino"
  by (simp add: post_consejos_def post_consejos_try_def try_catch_def requiere_destino_def)

lemma get_wiki_try_not_500: "snd (get_wiki_try w q) \<noteq> Inr (500, b)"
  by (auto simp: get_wiki_try_def Let_def bind_exn_def split: sum.splits)

lemma post_vuelos_try_not_500: "snd (post_vuelos_try w q) \<noteq> Inr (500, b)"
  by (auto simp: post_vuelos_try_def Let_def)

lemma get_hospedaje_try_not_500: "snd (get_hospedaje_try w q) \<noteq> Inr (500, b)"
  by (auto simp: get_hospedaje_try_def Let_def bind_exn_def split: sum.splits)

lemma post_consejos_try_not_500: "snd (post_consejos_try w q) \<noteq> Inr (500, b)"
  by (auto simp: post_consejos_try_def Let_def bind_exn_def split: sum.splits)

lemma get_clima_try_500:
  "snd (get_clima_try w q) = Inr (500, b) \<Longrightarrow>
     \<not> truthy (api_key w) \<and> b = ErrorBody ''API key de OpenWeather no configurada'' None"
  by (auto simp: get_clima_try_def Let_def bind_exn_def split: sum.splits if_splits)

lemma call_toLowerCase_text:
  "text_or_absent v \<Longrightarrow> call_toLowerCase x (default_to v (JStr d)) = Inr (toLowerCase (text_or v d))"
  by (cases v) (simp_all add: default_to_def)

lemma post_consejos_text:
  assumes "truthy (b ''destino'')" and "to_string (b ''destino'') = Inr d"
    and "text_or_absent (b ''tipoViaje'')" and "text_or_absent (b ''presupuesto'')"
  shows "post_consejos w b =
    \<lparr>status = 200,
     body = ConsejosBody
       \<lparr>destino = b ''destino'',
        tipoViaje = default_to (b ''tipoViaje'') (JStr ''vacaciones''),
        presupuesto = default_to (b ''presupuesto'') (JStr ''medio''),
        recomendaciones =
          (if ci_contains (text_or (b ''tipoViaje'') ''vacaciones'') ''negocio''
             then recomendaciones_negocio d
           else if ci_contains (text_or (b ''tipoViaje'') ''vacaciones'') ''aventura''
             then recomendaciones_aventura d
           else if ci_contains (text_or (b ''tipoViaje'') ''vacaciones'') ''cultural''
             then recomendaciones_cultural d
           else recomendaciones_vacaciones d),
        consejoPresupuesto =
          (if ci_equal (text_or (b ''presupuesto'') ''medio'') ''bajo''
             then consejo_bajo d
           else if ci_equal (text_or (b ''presupuesto'') ''medio'') ''alto''
             then consejo_alto d
           else consejo_medio d)\<rparr>,
     calls = []\<rparr>"
  using assms
  by (simp add: post_consejos_def post_consejos_try_def try_catch_def Let_def
      call_toLowerCase_text includes_needles equals_needles)

lemma recomendaciones_length:
  "length (recomendaciones_negocio d) = 5" "length (recomendaciones_aventura d) = 5"
  "length (recomendaciones_cultural d) = 5" "length (recomendaciones_vacaciones d) = 5"
  by (simp_all add: recomendaciones_negocio_def recomendaciones_aventura_def
      recomendaciones_cultural_def recomendaciones_vacaciones_def)

lemma recomendaciones_suffix:
  "list_all (suffix d) (recomendaciones_negocio d)"
  "list_all (suffix d) (recomendaciones_aventura d)"
  "list_all (suffix d) (recomendaciones_cultural d)"
  "list_all (suffix d) (recomendaciones_vacaciones d)"
  by (simp_all only: recomendaciones_negocio_def recomendaciones_aventura_def
      recomendaciones_cultural_def recomendaciones_vacaciones_def list.pred_inject
      suffix_appendI suffix_order.refl simp_thms)

lemma consejo_contains:
  "sublist d (consejo_bajo d)" "sublist d (consejo_alto d)" "sublist d (consejo_medio d)"
  unfolding consejo_bajo_def consejo_alto_def consejo_medio_def by (rule sublist_appendI)+

lemma post_consejos_ignores_world: "post_consejos w b = post_consejos w' b"
  by (simp add: post_consejos_def post_consejos_try_def)

lemma post_consejos_no_calls: "calls (post_consejos w b) = []"
  by (simp add: post_consejos_def post_consejos_try_def try_catch_def Let_def split: sum.splits prod.splits)

section \<open>The strings of some numbers and values\<close>

text \<open>
  The numbers 1, 5, \<open>10^21\<close>, one tenth and \<open>-4.8\<close>: their fields, the search for their
  shortest decimal, and their strings.
\<close>

lemma double_fields:
  "exponent_field one = 1023" "fraction_field one = 0" "\<not> sign_bit one"
  "exponent_field five = 1025" "fraction_field five = 1125899906842624" "\<not> sign_bit five"
  "exponent_field 0x444B1AE4D6E2EF50 = 1092" "fraction_field 0x444B1AE4D6E2EF50 = 3125794903879504"
  "\<not> sign_bit 0x444B1AE4D6E2EF50"
  "exponent_field 0x3FB999999999999A = 1019" "fraction_field 0x3FB999999999999A = 2702159776422298"
  "\<not> sign_bit 0x3FB999999999999A"
  "exponent_field 0xC013333333333333 = 1025" "fraction_field 0xC013333333333333 = 900719925474099"
  "sign_bit 0xC013333333333333"
  by (simp_all add: one_def five_def exponent_field_def fraction_field_def sign_bit_def)

lemma magnitude_examples:
  "magnitude 4503599627370496 (- 52) = 1"
  "magnitude 5629499534213120 (- 50) = 1"
  "magnitude 7629394531250000 17 = 22"
  "magnitude 7205759403792794 (- 56) = 0"
  "magnitude 5404319552844595 (- 50) = 1"
  by (simp_all add: magnitude_def scaled_num_def scaled_den_def Let_def decimal.simps
      first_place.simps[of _ _ "Suc 0"])

lemma shortest_examples:
  "shortest 4503599627370496 (- 52) 1 (Suc 0) = (1, 0)"
  "shortest 5629499534213120 (- 50) 1 (Suc 0) = (5, 0)"
  "shortest 7629394531250000 17 22 (Suc 0) = (1, 21)"
  "shortest 7205759403792794 (- 56) 0 (Suc 0) = (1, - 1)"
  by (subst shortest.simps,
      simp add: scaled_num_def scaled_den_def candidate_def round_trips_def nearest_def Let_def)+

lemma shortest_two_digits:
  "shortest 5404319552844595 (- 50) 1 (Suc 0) = (48, - 1)"
  by (subst shortest.simps, subst shortest.simps,
      simp add: scaled_num_def scaled_den_def candidate_def round_trips_def nearest_def Let_def)

lemma decimal_examples:
  "decimal (Suc 0) = ''1''" "decimal 5 = ''5''" "decimal 48 = ''48''" "decimal 21 = ''21''"
  by (simp_all add: decimal.simps digit_char_def char_of_def bit_numeral_simps bit_Suc_0_iff)

lemma positive_to_string_examples:
  "positive_to_string 4503599627370496 (- 52) = ''1''"
  "positive_to_string 5629499534213120 (- 50) = ''5''"
  "positive_to_string 7629394531250000 17 = ''1e+21''"
  "positive_to_string 7205759403792794 (- 56) = ''0.1''"
  "positive_to_string 5404319552844595 (- 50) = ''4.8''"
  by (simp_all add: positive_to_string_def magnitude_examples shortest_examples shortest_two_digits
      format_number_def strip_zeros_def decimal_examples Let_def)

lemma number_to_string_examples:
  "number_to_string one = ''1''"
  "number_to_string five = ''5''"
  "number_to_string 0x444B1AE4D6E2EF50 = ''1e+21''"
  "number_to_string 0x3FB999999999999A = ''0.1''"
  "number_to_string 0xC013333333333333 = ''-4.8''"
  by (simp_all add: number_to_string_def is_nan_def is_zero_def is_infinite_def significand_def
      exponent_def double_fields positive_to_string_examples)

lemma integer_to_string_agrees:
  "integer_to_string 1 = number_to_string one" "integer_to_string 5 = number_to_string five"
  by (simp_all add: number_to_string_examples integer_to_string_def decimal_examples)

lemma to_string_examples:
  "to_string (JStr ''Lima'') = Inr ''Lima''"
  "to_string (JNum five) = Inr ''5''"
  "to_string (JArr [JStr ''a'', JNull, JNum one, JArr [JBool True]]) = Inr ''a,,1,true''"
  "to_string (JObj [(''valueOf'', JNum one)]) = Inr ''[object Object]''"
  "to_string (JObj [(''toString'', JNum one)]) = Inl NotPrimitive"
  "to_string (JArr [JStr ''a'', JObj [(''toString'', JNull)]]) = Inl NotPrimitive"
  by (simp_all add: number_to_string_examples)

section \<open>The example requests evaluated\<close>

lemma wiki_url_Lima:
  "wiki_url (JStr ''Lima'') = Inr ''https://es.wikipedia.org/api/rest_v1/page/summary/Lima''"
  by (simp add: wiki_url_def encodeURIComponent_def unreserved_def)

lemma wiki_url_Cusco:
  "wiki_url (JStr ''Cusco'') = Inr ''https://es.wikipedia.org/api/rest_v1/page/summary/Cusco''"
  by (simp add: wiki_url_def encodeURIComponent_def unreserved_def)

lemma clima_url_Cusco:
  "clima_url (JStr ''Cusco'') (JStr ''k3y'')
     = Inr ''https://api.openweathermap.org/data/2.5/weather?q=Cusco&units=metric&lang=es&appid=k3y''"
  by (simp add: clima_url_def encodeURIComponent_def unreserved_def)

lemma is_random_draws: "is_random (draws_a i)" "is_random (draws_b i)"
  by (simp_all add: draws_a_def draws_b_def is_random_def)

lemma random_int_world_a:
  "random_int world_a 0 1000 = 500" "random_int world_a (Suc 0) 300 = 299"
  "random_int world_a 2 1000 = 0" "random_int world_a 3 300 = 0"
  "random_int world_a 4 1000 = 999" "random_int world_a 5 300 = 225"
  "random_int world_a 0 100 = 50" "random_int world_a (Suc 0) 150 = 149"
  "random_int world_a 2 200 = 0"
  by (simp_all add: random_int_def world_a_def draws_a_def mul_dbl_def math_floor_def
      round_to_53_def bit_length.simps Let_def)

lemma random_int_b:
  "random_int world_a' 0 1000 = 250" "random_int world_a' (Suc 0) 300 = 75"
  "random_int world_a' 0 100 = 25"
  by (simp_all add: random_int_def world_a'_def world_a_def draws_b_def mul_dbl_def math_floor_def
      round_to_53_def bit_length.simps Let_def)

lemma integer_to_string_examples:
  "integer_to_string 500 = ''500''" "integer_to_string 0 = ''0''" "integer_to_string 999 = ''999''"
  "integer_to_string 250 = ''250''"
  by (simp_all add: integer_to_string_def decimal.simps digit_char_def char_of_def
      bit_numeral_simps bit_Suc_0_iff)

lemma post_vuelos_world_a:
  "post_vuelos world_a vuelos_body =
     \<lparr>status = 200,
      body = VuelosBody
        [\<lparr>aerolinea = ''Avianca'', numeroVuelo = ''AV500'',
          origen = JStr ''Bogota'', destino = JStr ''Lima'', fecha = JStr ''2024-05-01'',
          horaSalida = ''08:30'', horaLlegada = ''10:45'', duracion = ''2h 15m'',
          precio = 499, moneda = ''USD'', escalas = 0\<rparr>,
         \<lparr>aerolinea = ''LATAM'', numeroVuelo = ''LA0'',
          origen = JStr ''Bogota'', destino = JStr ''Lima'', fecha = JStr ''2024-05-01'',
          horaSalida = ''12:15'', horaLlegada = ''14:50'', duracion = ''2h 35m'',
          precio = 180, moneda = ''USD'', escalas = 1\<rparr>,
         \<lparr>aerolinea = ''Copa Airlines'', numeroVuelo = ''CM999'',
          origen = JStr ''Bogota'', destino = JStr ''Lima'', fecha = JStr ''2024-05-01'',
          horaSalida = ''16:40'', horaLlegada = ''19:10'', duracion = ''2h 30m'',
          precio = 445, moneda = ''USD'', escalas = 0\<rparr>],
      calls = []\<rparr>"
  by (simp add: post_vuelos_def post_vuelos_try_def try_catch_def vuelos_body_def no_params_def
      Let_def random_int_world_a integer_to_string_examples)

lemma get_hospedaje_world_a:
  "get_hospedaje world_a lima_query =
     \<lparr>status = 200,
      body = HospedajesBody
        [\<lparr>nombre = ''Apartamento C'' @ e_acute @ ''ntrico'', tipo = ''Apartamento entero'',
          ubicacion = ''Centro de Lima'',
          precio = 100, moneda = ''USD'', porNoche = True,
          habitaciones = 2, banos = 1, capacidad = 4, calificacion = 4.8, opiniones = 123,
          imagen = ''https://via.placeholder.com/300x200?text=Apartamento''\<rparr>,
         \<lparr>nombre = ''Hotel Boutique'', tipo = ''Habitaci'' @ o_acute @ ''n de hotel'',
          ubicacion = ''Zona tur'' @ i_acute @ ''stica de Lima'',
          precio = 229, moneda = ''USD'', porNoche = True,
          habitaciones = 1, banos = 1, capacidad = 2, calificacion = 4.6, opiniones = 87,
          imagen = ''https://via.placeholder.com/300x200?text=Hotel''\<rparr>,
         \<lparr>nombre = ''Casa Familiar'', tipo = ''Casa entera'',
          ubicacion = ''Zona residencial de Lima'',
          precio = 120, moneda = ''USD'', porNoche = True,
          habitaciones = 3, banos = 2, capacidad = 6, calificacion = 4.9, opiniones = 45,
          imagen = ''https://via.placeholder.com/300x200?text=Casa''\<rparr>],
      calls = []\<rparr>"
  by (simp add: get_hospedaje_def get_hospedaje_try_def try_catch_def lima_query_def no_params_def
      Let_def random_int_world_a)

lemma decimal_500_250: "decimal 500 \<noteq> decimal 250"
  by (simp add: decimal.simps digit_char_def char_of_def bit_numeral_simps bit_Suc_0_iff)

lemma integer_500_250: "integer_to_string 500 \<noteq> integer_to_string 250"
  using decimal_500_250 by (simp add: integer_to_string_def)

lemma vuelos_vary:
  "\<exists>vs vs'. body (post_vuelos world_a vuelos_body) = VuelosBody vs
      \<and> body (post_vuelos world_a' vuelos_body) = VuelosBody vs'
      \<and> map numeroVuelo vs \<noteq> map numeroVuelo vs'
      \<and> map vuelo.precio vs \<noteq> map vuelo.precio vs'"
  using integer_500_250
  by (simp add: post_vuelos_def post_vuelos_try_def try_catch_def vuelos_body_def no_params_def
      random_int_world_a random_int_b Let_def)

lemma hospedajes_vary:
  "\<exists>hs hs'. body (get_hospedaje world_a lima_query) = HospedajesBody hs
      \<and> body (get_hospedaje world_a' lima_query) = HospedajesBody hs'
      \<and> map hospedaje.precio hs \<noteq> map hospedaje.precio hs'"
  by (simp add: get_hospedaje_def get_hospedaje_try_def try_catch_def lima_query_def no_params_def
      random_int_world_a random_int_b Let_def)

section \<open>The claims\<close>

text \<open>
  Claim C1, as amended. For every POST /consejos request whose \<open>destino\<close> passes the presence
  check and has a string conversion \<open>d\<close> (a string is its own; every other value has one but
  an object with a property \<^verbatim>\<open>toString\<close> of its own and an array that holds such an
  object), and whose \<open>tipoViaje\<close> and \<open>presupuesto\<close> are each absent or a string, the
  response is 200 and the recommendation list is one of the four fixed arrays, selected by
  case-insensitive substring match against \<open>tipoViaje\<close> (\<open>vacaciones\<close> when absent):
  \<open>negocio\<close> is tested first, then \<open>aventura\<close>, then \<open>cultural\<close>; the first match wins and
  with no match, as for the default \<open>vacaciones\<close>, the general vacation array is used. The
  selected array has five strings in its fixed order, each ending with \<open>d\<close>.
\<close>

theorem post_consejos_recomendaciones:
  assumes "truthy (b ''destino'')" and "to_string (b ''destino'') = Inr d"
    and "text_or_absent (b ''tipoViaje'')" and "text_or_absent (b ''presupuesto'')"
  shows "(\<exists>r. post_consejos w b = \<lparr>status = 200, body = ConsejosBody r, calls = []\<rparr>
    \<and> recomendaciones r =
        (if ci_contains (text_or (b ''tipoViaje'') ''vacaciones'') ''negocio''
           then recomendaciones_negocio d
         else if ci_contains (text_or (b ''tipoViaje'') ''vacaciones'') ''aventura''
           then recomendaciones_aventura d
         else if ci_contains (text_or (b ''tipoViaje'') ''vacaciones'') ''cultural''
           then recomendaciones_cultural d
         else recomendaciones_vacaciones d)
    \<and> (b ''tipoViaje'' = JUndefined \<or> b ''tipoViaje'' = JStr ''vacaciones'' \<longrightarrow>
         recomendaciones r = recomendaciones_vacaciones d)
    \<and> length (recomendaciones r) = 5
    \<and> list_all (suffix d) (recomendaciones r))
    \<and> (\<forall>s. b ''destino'' = JStr s \<longrightarrow> d = s)"
proof -
  define t where "t = text_or (b ''tipoViaje'') ''vacaciones''"
  define rs where "rs =
        (if ci_contains t ''negocio'' then recomendaciones_negocio d
         else if ci_contains t ''aventura'' then recomendaciones_aventura d
         else if ci_contains t ''cultural'' then recomendaciones_cultural d
         else recomendaciones_vacaciones d)"
  obtain r where r: "post_consejos w b = \<lparr>status = 200, body = ConsejosBody r, calls = []\<rparr>"
    and rr: "recomendaciones r = rs"
    using post_consejos_text[OF assms, of w] unfolding rs_def t_def by simp
  have shape: "length rs = 5" "list_all (suffix d) rs"
    unfolding rs_def using recomendaciones_length[of d] recomendaciones_suffix[of d] by simp_all
  have dflt: "b ''tipoViaje'' = JUndefined \<or> b ''tipoViaje'' = JStr ''vacaciones'' \<longrightarrow>
      rs = recomendaciones_vacaciones d"
  proof
    assume "b ''tipoViaje'' = JUndefined \<or> b ''tipoViaje'' = JStr ''vacaciones''"
    then have "t = ''vacaciones''" unfolding t_def by auto
    then show "rs = recomendaciones_vacaciones d"
      unfolding rs_def by (simp only: vacaciones_no_match if_False)
  qed
  have "post_consejos w b = \<lparr>status = 200, body = ConsejosBody r, calls = []\<rparr>
    \<and> recomendaciones r = rs
    \<and> (b ''tipoViaje'' = JUndefined \<or> b ''tipoViaje'' = JStr ''vacaciones'' \<longrightarrow>
         recomendaciones r = recomendaciones_vacaciones d)
    \<and> length (recomendaciones r) = 5
    \<and> list_all (suffix d) (recomendaciones r)"
    using r rr shape dflt by simp
  then have main: "\<exists>r. post_consejos w b = \<lparr>status = 200, body = ConsejosBody r, calls = []\<rparr>
    \<and> recomendaciones r =
        (if ci_contains (text_or (b ''tipoViaje'') ''vacaciones'') ''negocio''
           then recomendaciones_negocio d
         else if ci_contains (text_or (b ''tipoViaje'') ''vacaciones'') ''aventura''
           then recomendaciones_aventura d
         else if ci_contains (text_or (b ''tipoViaje'') ''vacaciones'') ''cultural''
           then recomendaciones_cultural d
         else recomendaciones_vacaciones d)
    \<and> (b ''tipoViaje'' = JUndefined \<or> b ''tipoViaje'' = JStr ''vacaciones'' \<longrightarrow>
         recomendaciones r = recomendaciones_vacaciones d)
    \<and> length (recomendaciones r) = 5
    \<and> list_all (suffix d) (recomendaciones r)"
    unfolding rs_def t_def by (rule exI[of _ r])
  have str: "\<forall>s. b ''destino'' = JStr s \<longrightarrow> d = s"
    using assms(2) by auto
  from main str show ?thesis by (rule conjI)
qed

text \<open>The theorem at \<^verbatim>\<open>{destino: "Paris", tipoViaje: "Viaje de AVENTURA"}\<close>.\<close>

theorem post_consejos_recomendaciones_witness:
  "truthy (paris_aventura ''destino'') \<and> to_string (paris_aventura ''destino'') = Inr ''Paris''
   \<and> text_or_absent (paris_aventura ''tipoViaje'')
   \<and> text_or_absent (paris_aventura ''presupuesto'')
   \<and> (\<exists>r. post_consejos world_a paris_aventura = \<lparr>status = 200, body = ConsejosBody r, calls = []\<rparr>
         \<and> recomendaciones r = recomendaciones_aventura ''Paris'')"
proof -
  have v: "paris_aventura ''destino'' = JStr ''Paris''"
    "paris_aventura ''tipoViaje'' = JStr ''Viaje de AVENTURA''"
    "paris_aventura ''presupuesto'' = JUndefined"
    by (simp_all add: paris_aventura_def no_params_def)
  have h1: "truthy (paris_aventura ''destino'')" by (simp add: v)
  have hd: "to_string (paris_aventura ''destino'') = Inr ''Paris''" by (simp add: v)
  have h2: "text_or_absent (paris_aventura ''tipoViaje'')" by (simp add: v)
  have h3: "text_or_absent (paris_aventura ''presupuesto'')" by (simp add: v)
  have m: "\<not> ci_contains ''Viaje de AVENTURA'' ''negocio''" "ci_contains ''Viaje de AVENTURA'' ''aventura''"
    by (simp_all add: same_letter_def is_upper_def)
  from post_consejos_recomendaciones[where b = paris_aventura and w = world_a, OF h1 hd h2 h3]
  obtain r where "post_consejos world_a paris_aventura = \<lparr>status = 200, body = ConsejosBody r, calls = []\<rparr>"
    and "recomendaciones r = recomendaciones_aventura ''Paris''"
    unfolding v by (simp only: text_or.simps m if_True if_False) blast
  then show ?thesis using h1 hd h2 h3 by blast
qed

text \<open>
  Without the condition on \<open>tipoViaje\<close> and \<open>presupuesto\<close> the claim fails: for
  \<^verbatim>\<open>{destino: "Paris", tipoViaje: null}\<close> the default is not applied (it replaces
  \<^verbatim>\<open>undefined\<close> only), \<^verbatim>\<open>tipoViaje.toLowerCase()\<close> throws, and the response is the 500
  of the \<^verbatim>\<open>catch\<close> block, with no recommendation list; likewise for
  \<^verbatim>\<open>{destino: "Paris", presupuesto: null}\<close>, where the list is built and then lost.
  Without the condition on \<open>destino\<close> it fails too: for \<^verbatim>\<open>{destino: {toString: 1}}\<close>
  the first template literal throws, with the same outcome.
\<close>

theorem post_consejos_null_counterexample:
  "truthy (paris_tipo_null ''destino'')
   \<and> post_consejos world_a paris_tipo_null =
       \<lparr>status = 500,
        body = ErrorBody ''Error al generar recomendaciones''
          (Some (message (NullishRead JNull ''toLowerCase''))),
        calls = []\<rparr>
   \<and> truthy (paris_presupuesto_null ''destino'')
   \<and> post_consejos world_a paris_presupuesto_null =
       \<lparr>status = 500,
        body = ErrorBody ''Error al generar recomendaciones''
          (Some (message (NullishRead JNull ''toLowerCase''))),
        calls = []\<rparr>
   \<and> truthy (destino_objeto ''destino'')
   \<and> destino_objeto ''tipoViaje'' = JUndefined \<and> destino_objeto ''presupuesto'' = JUndefined
   \<and> post_consejos world_a destino_objeto =
       \<lparr>status = 500,
        body = ErrorBody ''Error al generar recomendaciones'' (Some (message NotPrimitive)),
        calls = []\<rparr>"
  by (simp add: paris_tipo_null_def paris_presupuesto_null_def destino_objeto_def no_params_def
      post_consejos_def post_consejos_try_def try_catch_def default_to_def)

text \<open>
  Claim C2. For every POST /vuelos request whose \<open>origen\<close>, \<open>destino\<close> and \<open>fecha\<close> pass
  the presence check, and for every sequence of random numbers, the response is 200 with
  exactly three offers, Avianca, LATAM and Copa Airlines in this order; each offer carries
  the request's \<open>origen\<close>, \<open>destino\<close> and \<open>fecha\<close> unchanged; the flight numbers are
  \<open>AV\<close>, \<open>LA\<close>, \<open>CM\<close> followed by the decimal digits of an integer from 0 to 999, so
  each has the format \<^verbatim>\<open>^(AV|LA|CM)\d{1,3}$\<close>; the prices are integers in \<open>[200,500)\<close>,
  \<open>[180,480)\<close> and \<open>[220,520)\<close>; times, durations, currency and stops are the constants of
  each airline; no outbound request is made.
\<close>

theorem post_vuelos_offers:
  assumes "truthy (b ''origen'')" and "truthy (b ''destino'')" and "truthy (b ''fecha'')"
    and "\<forall>i. is_random (math_random w i)"
  shows "\<exists>n1 p1 n2 p2 n3 p3.
    post_vuelos w b =
      \<lparr>status = 200,
       body = VuelosBody
         [\<lparr>aerolinea = ''Avianca'', numeroVuelo = ''AV'' @ decimal n1,
           origen = b ''origen'', destino = b ''destino'', fecha = b ''fecha'',
           horaSalida = ''08:30'', horaLlegada = ''10:45'', duracion = ''2h 15m'',
           precio = p1, moneda = ''USD'', escalas = 0\<rparr>,
          \<lparr>aerolinea = ''LATAM'', numeroVuelo = ''LA'' @ decimal n2,
           origen = b ''origen'', destino = b ''destino'', fecha = b ''fecha'',
           horaSalida = ''12:15'', horaLlegada = ''14:50'', duracion = ''2h 35m'',
           precio = p2, moneda = ''USD'', escalas = 1\<rparr>,
          \<lparr>aerolinea = ''Copa Airlines'', numeroVuelo = ''CM'' @ decimal n3,
           origen = b ''origen'', destino = b ''destino'', fecha = b ''fecha'',
           horaSalida = ''16:40'', horaLlegada = ''19:10'', duracion = ''2h 30m'',
           precio = p3, moneda = ''USD'', escalas = 0\<rparr>],
       calls = []\<rparr>
    \<and> n1 < 1000 \<and> n2 < 1000 \<and> n3 < 1000
    \<and> flight_number_format (''AV'' @ decimal n1)
    \<and> flight_number_format (''LA'' @ decimal n2)
    \<and> flight_number_format (''CM'' @ decimal n3)
    \<and> 200 \<le> p1 \<and> p1 < 500 \<and> 180 \<le> p2 \<and> p2 < 480 \<and> 220 \<le> p3 \<and> p3 < 520"
proof -
  have r: "\<And>i. is_random (math_random w i)" using assms(4) by simp
  define n1 where "n1 = nat (random_int w 0 1000)"
  define n2 where "n2 = nat (random_int w 2 1000)"
  define n3 where "n3 = nat (random_int w 4 1000)"
  define p1 where "p1 = random_int w 1 300 + 200"
  define p2 where "p2 = random_int w 3 300 + 180"
  define p3 where "p3 = random_int w 5 300 + 220"
  have s1: "integer_to_string (random_int w 0 1000) = decimal n1"
    unfolding n1_def using random_int_range[OF r, of 1000 0]
    by (intro integer_to_string_nat) simp_all
  have s2: "integer_to_string (random_int w 2 1000) = decimal n2"
    unfolding n2_def using random_int_range[OF r, of 1000 2]
    by (intro integer_to_string_nat) simp_all
  have s3: "integer_to_string (random_int w 4 1000) = decimal n3"
    unfolding n3_def using random_int_range[OF r, of 1000 4]
    by (intro integer_to_string_nat) simp_all
  have n: "n1 < 1000" "n2 < 1000" "n3 < 1000"
    using random_int_range[OF r, of 1000 0] random_int_range[OF r, of 1000 2]
      random_int_range[OF r, of 1000 4]
    by (simp_all add: n1_def n2_def n3_def)
  have p: "200 \<le> p1" "p1 < 500" "180 \<le> p2" "p2 < 480" "220 \<le> p3" "p3 < 520"
    using random_int_range[OF r, of 300 1] random_int_range[OF r, of 300 3]
      random_int_range[OF r, of 300 5]
    by (simp_all add: p1_def p2_def p3_def)
  have f: "flight_number_format (''AV'' @ decimal n1)" "flight_number_format (''LA'' @ decimal n2)"
    "flight_number_format (''CM'' @ decimal n3)"
    using flight_number_format_decimal[OF n(1), of "''AV''"]
      flight_number_format_decimal[OF n(2), of "''LA''"]
      flight_number_format_decimal[OF n(3), of "''CM''"]
    by simp_all
  have run: "post_vuelos w b =
      \<lparr>status = 200,
       body = VuelosBody
         [\<lparr>aerolinea = ''Avianca'', numeroVuelo = ''AV'' @ decimal n1,
           origen = b ''origen'', destino = b ''destino'', fecha = b ''fecha'',
           horaSalida = ''08:30'', horaLlegada = ''10:45'', duracion = ''2h 15m'',
           precio = p1, moneda = ''USD'', escalas = 0\<rparr>,
          \<lparr>aerolinea = ''LATAM'', numeroVuelo = ''LA'' @ decimal n2,
           origen = b ''origen'', destino = b ''destino'', fecha = b ''fecha'',
           horaSalida = ''12:15'', horaLlegada = ''14:50'', duracion = ''2h 35m'',
           precio = p2, moneda = ''USD'', escalas = 1\<rparr>,
          \<lparr>aerolinea = ''Copa Airlines'', numeroVuelo = ''CM'' @ decimal n3,
           origen = b ''origen'', destino = b ''destino'', fecha = b ''fecha'',
           horaSalida = ''16:40'', horaLlegada = ''19:10'', duracion = ''2h 30m'',
           precio = p3, moneda = ''USD'', escalas = 0\<rparr>],
       calls = []\<rparr>"
    using assms(1-3)
    by (simp add: post_vuelos_def post_vuelos_try_def try_catch_def Let_def s1 s2 s3
        p1_def p2_def p3_def)
  show ?thesis using run n f p by blast
qed

text \<open>
  The theorem at the request of the specification's example, with random numbers at both
  ends of their range.
\<close>

theorem post_vuelos_offers_witness:
  "truthy (vuelos_body ''origen'') \<and> truthy (vuelos_body ''destino'') \<and> truthy (vuelos_body ''fecha'')
   \<and> (\<forall>i. is_random (math_random world_a i))
   \<and> (\<exists>vs. body (post_vuelos world_a vuelos_body) = VuelosBody vs
         \<and> map numeroVuelo vs = [''AV500'', ''LA0'', ''CM999'']
         \<and> map vuelo.precio vs = [499, 180, 445]
         \<and> list_all (\<lambda>v. flight_number_format (numeroVuelo v)) vs
         \<and> list_all (\<lambda>v. vuelo.origen v = JStr ''Bogota'' \<and> vuelo.destino v = JStr ''Lima''
               \<and> vuelo.fecha v = JStr ''2024-05-01'') vs)"
proof -
  have h1: "truthy (vuelos_body ''origen'')" by (simp add: vuelos_body_def no_params_def)
  have h2: "truthy (vuelos_body ''destino'')" by (simp add: vuelos_body_def no_params_def)
  have h3: "truthy (vuelos_body ''fecha'')" by (simp add: vuelos_body_def no_params_def)
  have h4: "\<forall>i. is_random (math_random world_a i)"
    by (simp add: world_a_def draws_a_def is_random_def)
  from post_vuelos_offers[where b = vuelos_body and w = world_a, OF h1 h2 h3 h4]
  obtain n1 p1 n2 p2 n3 p3 where
    run: "post_vuelos world_a vuelos_body =
      \<lparr>status = 200,
       body = VuelosBody
         [\<lparr>aerolinea = ''Avianca'', numeroVuelo = ''AV'' @ decimal n1,
           origen = vuelos_body ''origen'', destino = vuelos_body ''destino'', fecha = vuelos_body ''fecha'',
           horaSalida = ''08:30'', horaLlegada = ''10:45'', duracion = ''2h 15m'',
           precio = p1, moneda = ''USD'', escalas = 0\<rparr>,
          \<lparr>aerolinea = ''LATAM'', numeroVuelo = ''LA'' @ decimal n2,
           origen = vuelos_body ''origen'', destino = vuelos_body ''destino'', fecha = vuelos_body ''fecha'',
           horaSalida = ''12:15'', horaLlegada = ''14:50'', duracion = ''2h 35m'',
           precio = p2, moneda = ''USD'', escalas = 1\<rparr>,
          \<lparr>aerolinea = ''Copa Airlines'', numeroVuelo = ''CM'' @ decimal n3,
           origen = vuelos_body ''origen'', destino = vuelos_body ''destino'', fecha = vuelos_body ''fecha'',
           horaSalida = ''16:40'', horaLlegada = ''19:10'', duracion = ''2h 30m'',
           precio = p3, moneda = ''USD'', escalas = 0\<rparr>],
       calls = []\<rparr>"
    and f: "flight_number_format (''AV'' @ decimal n1)"
      "flight_number_format (''LA'' @ decimal n2)"
      "flight_number_format (''CM'' @ decimal n3)"
    by blast
  define vs where "vs =
         [\<lparr>aerolinea = ''Avianca'', numeroVuelo = ''AV'' @ decimal n1,
           origen = vuelos_body ''origen'', destino = vuelos_body ''destino'', fecha = vuelos_body ''fecha'',
           horaSalida = ''08:30'', horaLlegada = ''10:45'', duracion = ''2h 15m'',
           precio = p1, moneda = ''USD'', escalas = 0\<rparr>,
          \<lparr>aerolinea = ''LATAM'', numeroVuelo = ''LA'' @ decimal n2,
           origen = vuelos_body ''origen'', destino = vuelos_body ''destino'', fecha = vuelos_body ''fecha'',
           horaSalida = ''12:15'', horaLlegada = ''14:50'', duracion = ''2h 35m'',
           precio = p2, moneda = ''USD'', escalas = 1\<rparr>,
          \<lparr>aerolinea = ''Copa Airlines'', numeroVuelo = ''CM'' @ decimal n3,
           origen = vuelos_body ''origen'', destino = vuelos_body ''destino'', fecha = vuelos_body ''fecha'',
           horaSalida = ''16:40'', horaLlegada = ''19:10'', duracion = ''2h 30m'',
           precio = p3, moneda = ''USD'', escalas = 0\<rparr>]"
  have fmt: "list_all (\<lambda>v. flight_number_format (numeroVuelo v)) vs"
    using f by (simp add: vs_def)
  have "body (post_vuelos world_a vuelos_body) = VuelosBody vs"
    using run by (simp add: vs_def)
  then have vs: "vs =
        [\<lparr>aerolinea = ''Avianca'', numeroVuelo = ''AV500'',
          origen = JStr ''Bogota'', destino = JStr ''Lima'', fecha = JStr ''2024-05-01'',
          horaSalida = ''08:30'', horaLlegada = ''10:45'', duracion = ''2h 15m'',
          precio = 499, moneda = ''USD'', escalas = 0\<rparr>,
         \<lparr>aerolinea = ''LATAM'', numeroVuelo = ''LA0'',
          origen = JStr ''Bogota'', destino = JStr ''Lima'', fecha = JStr ''2024-05-01'',
          horaSalida = ''12:15'', horaLlegada = ''14:50'', duracion = ''2h 35m'',
          precio = 180, moneda = ''USD'', escalas = 1\<rparr>,
         \<lparr>aerolinea = ''Copa Airlines'', numeroVuelo = ''CM999'',
          origen = JStr ''Bogota'', destino = JStr ''Lima'', fecha = JStr ''2024-05-01'',
          horaSalida = ''16:40'', horaLlegada = ''19:10'', duracion = ''2h 30m'',
          precio = 445, moneda = ''USD'', escalas = 0\<rparr>]"
    unfolding post_vuelos_world_a by simp
  from fmt[unfolded vs] show ?thesis using h1 h2 h3 h4 by (simp add: post_vuelos_world_a)
qed

text \<open>
  Claim C3, as amended. For every GET /hospedaje request whose \<open>ciudad\<close> passes the
  presence check and has a string conversion \<open>c\<close> (a string is its own), and for every
  sequence of random numbers, the response is 200 with exactly three offers, the
  apartment, the hotel and the house in this order; the \<open>ubicacion\<close> of each contains
  \<open>c\<close>; type, rooms, bathrooms, capacity, rating and number of reviews are the
  constants of each archetype; the prices are integers in \<open>[50,150)\<close>, \<open>[80,230)\<close> and
  \<open>[120,320)\<close>.
\<close>

theorem get_hospedaje_offers:
  assumes "truthy (q ''ciudad'')" and "to_string (q ''ciudad'') = Inr c"
    and "\<forall>i. is_random (math_random w i)"
  shows "(\<exists>hs p1 p2 p3.
    get_hospedaje w q = \<lparr>status = 200, body = HospedajesBody hs, calls = []\<rparr>
    \<and> hs =
         [\<lparr>nombre = ''Apartamento C'' @ e_acute @ ''ntrico'', tipo = ''Apartamento entero'',
           ubicacion = ''Centro de '' @ c,
           precio = p1, moneda = ''USD'', porNoche = True,
           habitaciones = 2, banos = 1, capacidad = 4, calificacion = 4.8, opiniones = 123,
           imagen = ''https://via.placeholder.com/300x200?text=Apartamento''\<rparr>,
          \<lparr>nombre = ''Hotel Boutique'', tipo = ''Habitaci'' @ o_acute @ ''n de hotel'',
           ubicacion = ''Zona tur'' @ i_acute @ ''stica de '' @ c,
           precio = p2, moneda = ''USD'', porNoche = True,
           habitaciones = 1, banos = 1, capacidad = 2, calificacion = 4.6, opiniones = 87,
           imagen = ''https://via.placeholder.com/300x200?text=Hotel''\<rparr>,
          \<lparr>nombre = ''Casa Familiar'', tipo = ''Casa entera'',
           ubicacion = ''Zona residencial de '' @ c,
           precio = p3, moneda = ''USD'', porNoche = True,
           habitaciones = 3, banos = 2, capacidad = 6, calificacion = 4.9, opiniones = 45,
           imagen = ''https://via.placeholder.com/300x200?text=Casa''\<rparr>]
    \<and> list_all (\<lambda>h. sublist c (ubicacion h)) hs
    \<and> 50 \<le> p1 \<and> p1 < 150 \<and> 80 \<le> p2 \<and> p2 < 230 \<and> 120 \<le> p3 \<and> p3 < 320)
    \<and> (\<forall>s. q ''ciudad'' = JStr s \<longrightarrow> c = s)"
proof -
  have r: "\<And>i. is_random (math_random w i)" using assms(3) by simp
  define p1 where "p1 = random_int w 0 100 + 50"
  define p2 where "p2 = random_int w 1 150 + 80"
  define p3 where "p3 = random_int w 2 200 + 120"
  define hs where "hs =
         [\<lparr>nombre = ''Apartamento C'' @ e_acute @ ''ntrico'', tipo = ''Apartamento entero'',
           ubicacion = ''Centro de '' @ c,
           precio = p1, moneda = ''USD'', porNoche = True,
           habitaciones = 2, banos = 1, capacidad = 4, calificacion = 4.8, opiniones = 123,
           imagen = ''https://via.placeholder.com/300x200?text=Apartamento''\<rparr>,
          \<lparr>nombre = ''Hotel Boutique'', tipo = ''Habitaci'' @ o_acute @ ''n de hotel'',
           ubicacion = ''Zona tur'' @ i_acute @ ''stica de '' @ c,
           precio = p2, moneda = ''USD'', porNoche = True,
           habitaciones = 1, banos = 1, capacidad = 2, calificacion = 4.6, opiniones = 87,
           imagen = ''https://via.placeholder.com/300x200?text=Hotel''\<rparr>,
          \<lparr>nombre = ''Casa Familiar'', tipo = ''Casa entera'',
           ubicacion = ''Zona residencial de '' @ c,
           precio = p3, moneda = ''USD'', porNoche = True,
           habitaciones = 3, banos = 2, capacidad = 6, calificacion = 4.9, opiniones = 45,
           imagen = ''https://via.placeholder.com/300x200?text=Casa''\<rparr>]"
  have p: "50 \<le> p1" "p1 < 150" "80 \<le> p2" "p2 < 230" "120 \<le> p3" "p3 < 320"
    using random_int_range[OF r, of 100 0] random_int_range[OF r, of 150 1]
      random_int_range[OF r, of 200 2]
    by (simp_all add: p1_def p2_def p3_def)
  have run: "get_hospedaje w q = \<lparr>status = 200, body = HospedajesBody hs, calls = []\<rparr>"
    using assms(1,2)
    by (simp add: get_hospedaje_def get_hospedaje_try_def try_catch_def Let_def hs_def
        p1_def p2_def p3_def)
  have sub: "\<And>pre. sublist c (pre @ c)"
    using sublist_appendI[of c _ "[]"] by simp
  have "list_all (\<lambda>h. sublist c (ubicacion h)) hs"
    unfolding hs_def using sub[of "''Centro de ''"] sub[of "''Zona tur'' @ i_acute @ ''stica de ''"]
      sub[of "''Zona residencial de ''"]
    by simp
  then have main: "\<exists>hs p1 p2 p3.
    get_hospedaje w q = \<lparr>status = 200, body = HospedajesBody hs, calls = []\<rparr>
    \<and> hs =
         [\<lparr>nombre = ''Apartamento C'' @ e_acute @ ''ntrico'', tipo = ''Apartamento entero'',
           ubicacion = ''Centro de '' @ c,
           precio = p1, moneda = ''USD'', porNoche = True,
           habitaciones = 2, banos = 1, capacidad = 4, calificacion = 4.8, opiniones = 123,
           imagen = ''https://via.placeholder.com/300x200?text=Apartamento''\<rparr>,
          \<lparr>nombre = ''Hotel Boutique'', tipo = ''Habitaci'' @ o_acute @ ''n de hotel'',
           ubicacion = ''Zona tur'' @ i_acute @ ''stica de '' @ c,
           precio = p2, moneda = ''USD'', porNoche = True,
           habitaciones = 1, banos = 1, capacidad = 2, calificacion = 4.6, opiniones = 87,
           imagen = ''https://via.placeholder.com/300x200?text=Hotel''\<rparr>,
          \<lparr>nombre = ''Casa Familiar'', tipo = ''Casa entera'',
           ubicacion = ''Zona residencial de '' @ c,
           precio = p3, moneda = ''USD'', porNoche = True,
           habitaciones = 3, banos = 2, capacidad = 6, calificacion = 4.9, opiniones = 45,
           imagen = ''https://via.placeholder.com/300x200?text=Casa''\<rparr>]
    \<and> list_all (\<lambda>h. sublist c (ubicacion h)) hs
    \<and> 50 \<le> p1 \<and> p1 < 150 \<and> 80 \<le> p2 \<and> p2 < 230 \<and> 120 \<le> p3 \<and> p3 < 320"
    using run p unfolding hs_def by blast
  have str: "\<forall>s. q ''ciudad'' = JStr s \<longrightarrow> c = s"
    using assms(2) by auto
  from main str show ?thesis by (rule conjI)
qed

text \<open>The theorem at \<^verbatim>\<open>/hospedaje?ciudad=Lima\<close>.\<close>

theorem get_hospedaje_offers_witness:
  "truthy (lima_query ''ciudad'') \<and> to_string (lima_query ''ciudad'') = Inr ''Lima''
   \<and> (\<forall>i. is_random (math_random world_a i))
   \<and> (\<exists>hs. body (get_hospedaje world_a lima_query) = HospedajesBody hs \<and> length hs = 3
         \<and> map tipo hs = [''Apartamento entero'', ''Habitaci'' @ o_acute @ ''n de hotel'', ''Casa entera'']
         \<and> map hospedaje.precio hs = [100, 229, 120]
         \<and> list_all (\<lambda>h. sublist ''Lima'' (ubicacion h)) hs)"
proof -
  have h1: "truthy (lima_query ''ciudad'')" by (simp add: lima_query_def no_params_def)
  have h2: "\<forall>i. is_random (math_random world_a i)"
    by (simp add: world_a_def draws_a_def is_random_def)
  have c: "to_string (lima_query ''ciudad'') = Inr ''Lima''"
    by (simp add: lima_query_def no_params_def)
  from get_hospedaje_offers[where q = lima_query and w = world_a, OF h1 c h2]
  obtain hs where hs: "get_hospedaje world_a lima_query = \<lparr>status = 200, body = HospedajesBody hs, calls = []\<rparr>"
    and sub: "list_all (\<lambda>h. sublist ''Lima'' (ubicacion h)) hs"
    by blast
  from hs have "hs = [\<lparr>nombre = ''Apartamento C'' @ e_acute @ ''ntrico'', tipo = ''Apartamento entero'',
          ubicacion = ''Centro de Lima'',
          precio = 100, moneda = ''USD'', porNoche = True,
          habitaciones = 2, banos = 1, capacidad = 4, calificacion = 4.8, opiniones = 123,
          imagen = ''https://via.placeholder.com/300x200?text=Apartamento''\<rparr>,
         \<lparr>nombre = ''Hotel Boutique'', tipo = ''Habitaci'' @ o_acute @ ''n de hotel'',
          ubicacion = ''Zona tur'' @ i_acute @ ''stica de Lima'',
          precio = 229, moneda = ''USD'', porNoche = True,
          habitaciones = 1, banos = 1, capacidad = 2, calificacion = 4.6, opiniones = 87,
          imagen = ''https://via.placeholder.com/300x200?text=Hotel''\<rparr>,
         \<lparr>nombre = ''Casa Familiar'', tipo = ''Casa entera'',
          ubicacion = ''Zona residencial de Lima'',
          precio = 120, moneda = ''USD'', porNoche = True,
          habitaciones = 3, banos = 2, capacidad = 6, calificacion = 4.9, opiniones = 45,
          imagen = ''https://via.placeholder.com/300x200?text=Casa''\<rparr>]"
    unfolding get_hospedaje_world_a by simp
  then show ?thesis using h1 c h2 hs sub by simp
qed

text \<open>
  Without the condition on the string conversion the claim fails: for the query
  \<^verbatim>\<open>?ciudad[toString]=x\<close>, read as an object with a property \<^verbatim>\<open>toString\<close>,
  \<open>ciudad\<close> passes the presence check, the first template literal throws, and the
  response is the 500 of the \<^verbatim>\<open>catch\<close> block, with no offer.
\<close>

theorem get_hospedaje_object_counterexample:
  "truthy (ciudad_objeto ''ciudad'') \<and> (\<forall>i. is_random (math_random world_a i))
   \<and> get_hospedaje world_a ciudad_objeto =
       \<lparr>status = 500,
        body = ErrorBody ''Error al buscar hospedaje'' (Some (message NotPrimitive)),
        calls = []\<rparr>"
  by (simp add: ciudad_objeto_def no_params_def get_hospedaje_def get_hospedaje_try_def
      try_catch_def world_a_def draws_a_def is_random_def)

text \<open>
  Claim C4. A GET /wiki, GET /clima or GET /hospedaje request without \<open>ciudad\<close>, a
  POST /vuelos request without one of \<open>origen\<close>, \<open>destino\<close>, \<open>fecha\<close>, and a POST /consejos
  request without \<open>destino\<close> are answered with status 400 and a body that has an
  \<^verbatim>\<open>error\<close> field and nothing else: no success payload is produced and no outbound
  request is made.
\<close>

theorem missing_parameter_400:
  "(q ''ciudad'' = JUndefined \<longrightarrow>
      get_wiki w q = requiere_ciudad \<and> get_clima w q = requiere_ciudad
      \<and> get_hospedaje w q = requiere_ciudad)
   \<and> (bv ''origen'' = JUndefined \<or> bv ''destino'' = JUndefined \<or> bv ''fecha'' = JUndefined \<longrightarrow>
      post_vuelos w bv = requieren_vuelos)
   \<and> (bc ''destino'' = JUndefined \<longrightarrow> post_consejos w bc = requiere_destino)
   \<and> status requiere_ciudad = 400 \<and> status requieren_vuelos = 400 \<and> status requiere_destino = 400
   \<and> (\<exists>e. body requiere_ciudad = ErrorBody e None)
   \<and> (\<exists>e. body requieren_vuelos = ErrorBody e None)
   \<and> (\<exists>e. body requiere_destino = ErrorBody e None)
   \<and> calls requiere_ciudad = [] \<and> calls requieren_vuelos = [] \<and> calls requiere_destino = []"
proof -
  have "q ''ciudad'' = JUndefined \<longrightarrow>
      get_wiki w q = requiere_ciudad \<and> get_clima w q = requiere_ciudad
      \<and> get_hospedaje w q = requiere_ciudad"
    by (simp add: get_wiki_falsy get_clima_falsy get_hospedaje_falsy)
  moreover have "bv ''origen'' = JUndefined \<or> bv ''destino'' = JUndefined \<or> bv ''fecha'' = JUndefined
      \<longrightarrow> post_vuelos w bv = requieren_vuelos"
    using post_vuelos_falsy[of bv w] by auto
  moreover have "bc ''destino'' = JUndefined \<longrightarrow> post_consejos w bc = requiere_destino"
    by (simp add: post_consejos_falsy)
  ultimately show ?thesis
    by (simp add: requiere_ciudad_def requieren_vuelos_def requiere_destino_def)
qed

text \<open>
  The theorem at requests with no parameter at all, at a flight search without \<open>fecha\<close>
  and at an advice request without \<open>destino\<close>; for /clima in a process without credential,
  where the 400 still comes first.
\<close>

theorem missing_parameter_400_witness:
  "no_params ''ciudad'' = JUndefined
   \<and> (vuelos_body(''fecha'' := JUndefined)) ''fecha'' = JUndefined
   \<and> (no_params(''tipoViaje'' := JStr ''aventura'')) ''destino'' = JUndefined
   \<and> get_wiki world_a no_params = requiere_ciudad
   \<and> get_clima world_b no_params = requiere_ciudad
   \<and> get_hospedaje world_a no_params = requiere_ciudad
   \<and> post_vuelos world_a (vuelos_body(''fecha'' := JUndefined)) = requieren_vuelos
   \<and> post_consejos world_a (no_params(''tipoViaje'' := JStr ''aventura'')) = requiere_destino"
  using missing_parameter_400[of no_params world_a "vuelos_body(''fecha'' := JUndefined)"
      "no_params(''tipoViaje'' := JStr ''aventura'')"]
    missing_parameter_400[of no_params world_b vuelos_body no_params]
  by (simp add: no_params_def)

text \<open>
  Claim C5, as amended. For every POST /consejos request whose \<open>destino\<close> passes the presence
  check and has a string conversion \<open>d\<close>, and whose \<open>tipoViaje\<close> and \<open>presupuesto\<close> are
  each absent or a string, the budget note is selected by exact case-insensitive match of
  \<open>presupuesto\<close> (\<open>medio\<close> when absent): \<open>bajo\<close> selects the low-budget note, \<open>alto\<close>
  the high-budget note, every other text, \<open>medio\<close> among them, the medium-budget note; the
  note contains \<open>d\<close>; and the note is the same for every \<open>tipoViaje\<close> that is absent or a
  string.
\<close>

theorem post_consejos_consejoPresupuesto:
  assumes "truthy (b ''destino'')" and "to_string (b ''destino'') = Inr d"
    and "text_or_absent (b ''tipoViaje'')" and "text_or_absent (b ''presupuesto'')"
  shows "(\<exists>r. post_consejos w b = \<lparr>status = 200, body = ConsejosBody r, calls = []\<rparr>
    \<and> consejoPresupuesto r =
        (if ci_equal (text_or (b ''presupuesto'') ''medio'') ''bajo''
           then consejo_bajo d
         else if ci_equal (text_or (b ''presupuesto'') ''medio'') ''alto''
           then consejo_alto d
         else consejo_medio d)
    \<and> (b ''presupuesto'' = JUndefined \<or> b ''presupuesto'' = JStr ''medio'' \<longrightarrow>
         consejoPresupuesto r = consejo_medio d)
    \<and> sublist d (consejoPresupuesto r)
    \<and> (\<forall>t. text_or_absent t \<longrightarrow>
         (\<exists>r'. post_consejos w (b(''tipoViaje'' := t))
                 = \<lparr>status = 200, body = ConsejosBody r', calls = []\<rparr>
               \<and> consejoPresupuesto r' = consejoPresupuesto r)))
    \<and> (\<forall>s. b ''destino'' = JStr s \<longrightarrow> d = s)"
proof -
  define p where "p = text_or (b ''presupuesto'') ''medio''"
  define nota where "nota =
        (if ci_equal p ''bajo'' then consejo_bajo d
         else if ci_equal p ''alto'' then consejo_alto d
         else consejo_medio d)"
  obtain r where r: "post_consejos w b = \<lparr>status = 200, body = ConsejosBody r, calls = []\<rparr>"
    and rn: "consejoPresupuesto r = nota"
    using post_consejos_text[OF assms, of w] unfolding nota_def p_def by simp
  have dflt: "b ''presupuesto'' = JUndefined \<or> b ''presupuesto'' = JStr ''medio'' \<longrightarrow>
      nota = consejo_medio d"
  proof
    assume "b ''presupuesto'' = JUndefined \<or> b ''presupuesto'' = JStr ''medio''"
    then have "p = ''medio''" unfolding p_def by auto
    moreover have "\<not> ci_equal ''medio'' ''bajo''" "\<not> ci_equal ''medio'' ''alto''"
      by (simp_all add: ci_equal_def)
    ultimately show "nota = consejo_medio d" unfolding nota_def by simp
  qed
  have sub: "sublist d nota"
    unfolding nota_def using consejo_contains[of d] by simp
  have indep: "\<forall>t. text_or_absent t \<longrightarrow>
         (\<exists>r'. post_consejos w (b(''tipoViaje'' := t))
                 = \<lparr>status = 200, body = ConsejosBody r', calls = []\<rparr>
               \<and> consejoPresupuesto r' = nota)"
  proof (intro allI impI)
    fix t assume t: "text_or_absent t"
    let ?b = "b(''tipoViaje'' := t)"
    have "truthy (?b ''destino'')" "to_string (?b ''destino'') = Inr d"
      "text_or_absent (?b ''tipoViaje'')" "text_or_absent (?b ''presupuesto'')"
      using assms t by simp_all
    from post_consejos_text[OF this, of w]
    obtain r' where "post_consejos w ?b = \<lparr>status = 200, body = ConsejosBody r', calls = []\<rparr>"
      and "consejoPresupuesto r' = nota"
      unfolding nota_def p_def by simp
    then show "\<exists>r'. post_consejos w ?b = \<lparr>status = 200, body = ConsejosBody r', calls = []\<rparr>
               \<and> consejoPresupuesto r' = nota"
      by blast
  qed
  have C: "b ''presupuesto'' = JUndefined \<or> b ''presupuesto'' = JStr ''medio'' \<longrightarrow>
         consejoPresupuesto r = consejo_medio d"
    unfolding rn by (rule dflt)
  have D: "sublist d (consejoPresupuesto r)"
    unfolding rn by (rule sub)
  have E: "\<forall>t. text_or_absent t \<longrightarrow>
         (\<exists>r'. post_consejos w (b(''tipoViaje'' := t))
                 = \<lparr>status = 200, body = ConsejosBody r', calls = []\<rparr>
               \<and> consejoPresupuesto r' = consejoPresupuesto r)"
    unfolding rn by (rule indep)
  have "post_consejos w b = \<lparr>status = 200, body = ConsejosBody r, calls = []\<rparr>
    \<and> consejoPresupuesto r = nota
    \<and> (b ''presupuesto'' = JUndefined \<or> b ''presupuesto'' = JStr ''medio'' \<longrightarrow>
         consejoPresupuesto r = consejo_medio d)
    \<and> sublist d (consejoPresupuesto r)
    \<and> (\<forall>t. text_or_absent t \<longrightarrow>
         (\<exists>r'. post_consejos w (b(''tipoViaje'' := t))
                 = \<lparr>status = 200, body = ConsejosBody r', calls = []\<rparr>
               \<and> consejoPresupuesto r' = consejoPresupuesto r))"
    by (intro conjI r rn C D E)
  then have "\<exists>r. post_consejos w b = \<lparr>status = 200, body = ConsejosBody r, calls = []\<rparr>
    \<and> consejoPresupuesto r = nota
    \<and> (b ''presupuesto'' = JUndefined \<or> b ''presupuesto'' = JStr ''medio'' \<longrightarrow>
         consejoPresupuesto r = consejo_medio d)
    \<and> sublist d (consejoPresupuesto r)
    \<and> (\<forall>t. text_or_absent t \<longrightarrow>
         (\<exists>r'. post_consejos w (b(''tipoViaje'' := t))
                 = \<lparr>status = 200, body = ConsejosBody r', calls = []\<rparr>
               \<and> consejoPresupuesto r' = consejoPresupuesto r))"
    by (rule exI[of _ r])
  then have main: "\<exists>r. post_consejos w b = \<lparr>status = 200, body = ConsejosBody r, calls = []\<rparr>
    \<and> consejoPresupuesto r =
        (if ci_equal (text_or (b ''presupuesto'') ''medio'') ''bajo''
           then consejo_bajo d
         else if ci_equal (text_or (b ''presupuesto'') ''medio'') ''alto''
           then consejo_alto d
         else consejo_medio d)
    \<and> (b ''presupuesto'' = JUndefined \<or> b ''presupuesto'' = JStr ''medio'' \<longrightarrow>
         consejoPresupuesto r = consejo_medio d)
    \<and> sublist d (consejoPresupuesto r)
    \<and> (\<forall>t. text_or_absent t \<longrightarrow>
         (\<exists>r'. post_consejos w (b(''tipoViaje'' := t))
                 = \<lparr>status = 200, body = ConsejosBody r', calls = []\<rparr>
               \<and> consejoPresupuesto r' = consejoPresupuesto r))"
    unfolding nota_def p_def .
  have str: "\<forall>s. b ''destino'' = JStr s \<longrightarrow> d = s"
    using assms(2) by auto
  from main str show ?thesis by (rule conjI)
qed

text \<open>The theorem at \<^verbatim>\<open>{destino: "Paris", presupuesto: "Bajo"}\<close>.\<close>

theorem post_consejos_consejoPresupuesto_witness:
  "truthy (paris_bajo ''destino'') \<and> to_string (paris_bajo ''destino'') = Inr ''Paris''
   \<and> text_or_absent (paris_bajo ''tipoViaje'')
   \<and> text_or_absent (paris_bajo ''presupuesto'')
   \<and> (\<exists>r. post_consejos world_a paris_bajo = \<lparr>status = 200, body = ConsejosBody r, calls = []\<rparr>
         \<and> consejoPresupuesto r = consejo_bajo ''Paris'')"
proof -
  have v: "paris_bajo ''destino'' = JStr ''Paris''"
    "paris_bajo ''tipoViaje'' = JUndefined"
    "paris_bajo ''presupuesto'' = JStr ''Bajo''"
    by (simp_all add: paris_bajo_def no_params_def)
  have h1: "truthy (paris_bajo ''destino'')" by (simp add: v)
  have hd: "to_string (paris_bajo ''destino'') = Inr ''Paris''" by (simp add: v)
  have h2: "text_or_absent (paris_bajo ''tipoViaje'')" by (simp add: v)
  have h3: "text_or_absent (paris_bajo ''presupuesto'')" by (simp add: v)
  have m: "ci_equal ''Bajo'' ''bajo''"
    by (simp add: ci_equal_def same_letter_def is_upper_def)
  from post_consejos_consejoPresupuesto[where b = paris_bajo and w = world_a, OF h1 hd h2 h3]
  obtain r where "post_consejos world_a paris_bajo = \<lparr>status = 200, body = ConsejosBody r, calls = []\<rparr>"
    and "consejoPresupuesto r = consejo_bajo ''Paris''"
    unfolding v by (simp only: text_or.simps m if_True) blast
  then show ?thesis using h1 hd h2 h3 by blast
qed

text \<open>
  Without the condition on \<open>presupuesto\<close> and \<open>tipoViaje\<close> the claim fails: for
  \<^verbatim>\<open>{destino: "Paris", presupuesto: 5}\<close> no note is selected, the response is the 500
  of the \<^verbatim>\<open>catch\<close> block; and so it is for \<^verbatim>\<open>{destino: "Paris", tipoViaje: 5}\<close>,
  whatever \<open>presupuesto\<close> is. Without the condition on \<open>destino\<close> it fails too: for
  \<^verbatim>\<open>{destino: {toString: 1}, presupuesto: "bajo"}\<close> a template literal throws before
  \<open>presupuesto\<close> is looked at.
\<close>

theorem post_consejos_number_counterexample:
  "truthy (paris_presupuesto_5 ''destino'')
   \<and> post_consejos world_a paris_presupuesto_5 =
       \<lparr>status = 500,
        body = ErrorBody ''Error al generar recomendaciones''
          (Some (message (NotAFunction ''presupuesto'' ''toLowerCase''))),
        calls = []\<rparr>
   \<and> truthy (paris_tipo_5 ''destino'')
   \<and> post_consejos world_a paris_tipo_5 =
       \<lparr>status = 500,
        body = ErrorBody ''Error al generar recomendaciones''
          (Some (message (NotAFunction ''tipoViaje'' ''toLowerCase''))),
        calls = []\<rparr>
   \<and> truthy (destino_objeto_bajo ''destino'')
   \<and> destino_objeto_bajo ''presupuesto'' = JStr ''bajo''
   \<and> post_consejos world_a destino_objeto_bajo =
       \<lparr>status = 500,
        body = ErrorBody ''Error al generar recomendaciones'' (Some (message NotPrimitive)),
        calls = []\<rparr>"
  by (simp add: paris_tipo_5_def paris_presupuesto_5_def destino_objeto_bajo_def destino_objeto_def
      no_params_def post_consejos_def post_consejos_try_def try_catch_def default_to_def)

text \<open>
  Claim C6. The response of POST /consejos is a function of the request body alone: it is
  the same in every world (whatever the random numbers, the credential and the upstream
  answers are) and no outbound request is made. For POST /vuelos and GET /hospedaje there
  are a valid request and two sequences of random numbers, all else equal, for which the
  responses differ in the prices and, for /vuelos, in the flight numbers.
\<close>

theorem consejos_pure_vuelos_hospedaje_random:
  "(\<forall>w w' b. post_consejos w b = post_consejos w' b \<and> calls (post_consejos w b) = [])
   \<and> (\<exists>b w w'. api_key w = api_key w' \<and> axios_get w = axios_get w'
         \<and> (\<forall>i. is_random (math_random w i)) \<and> (\<forall>i. is_random (math_random w' i))
         \<and> truthy (b ''origen'') \<and> truthy (b ''destino'') \<and> truthy (b ''fecha'')
         \<and> (\<exists>vs vs'. body (post_vuelos w b) = VuelosBody vs
               \<and> body (post_vuelos w' b) = VuelosBody vs'
               \<and> map numeroVuelo vs \<noteq> map numeroVuelo vs'
               \<and> map vuelo.precio vs \<noteq> map vuelo.precio vs'))
   \<and> (\<exists>q w w'. api_key w = api_key w' \<and> axios_get w = axios_get w'
         \<and> (\<forall>i. is_random (math_random w i)) \<and> (\<forall>i. is_random (math_random w' i))
         \<and> truthy (q ''ciudad'')
         \<and> (\<exists>hs hs'. body (get_hospedaje w q) = HospedajesBody hs
               \<and> body (get_hospedaje w' q) = HospedajesBody hs'
               \<and> map hospedaje.precio hs \<noteq> map hospedaje.precio hs'))"
proof (intro conjI)
  show "\<forall>w w' b. post_consejos w b = post_consejos w' b \<and> calls (post_consejos w b) = []"
    using post_consejos_ignores_world post_consejos_no_calls by blast
next
  have "api_key world_a = api_key world_a' \<and> axios_get world_a = axios_get world_a'
         \<and> (\<forall>i. is_random (math_random world_a i)) \<and> (\<forall>i. is_random (math_random world_a' i))
         \<and> truthy (vuelos_body ''origen'') \<and> truthy (vuelos_body ''destino'')
         \<and> truthy (vuelos_body ''fecha'')"
    by (simp add: world_a'_def world_a_def is_random_draws vuelos_body_def no_params_def)
  with vuelos_vary show "\<exists>b w w'. api_key w = api_key w' \<and> axios_get w = axios_get w'
         \<and> (\<forall>i. is_random (math_random w i)) \<and> (\<forall>i. is_random (math_random w' i))
         \<and> truthy (b ''origen'') \<and> truthy (b ''destino'') \<and> truthy (b ''fecha'')
         \<and> (\<exists>vs vs'. body (post_vuelos w b) = VuelosBody vs
               \<and> body (post_vuelos w' b) = VuelosBody vs'
               \<and> map numeroVuelo vs \<noteq> map numeroVuelo vs'
               \<and> map vuelo.precio vs \<noteq> map vuelo.precio vs')"
    by (intro exI[of _ vuelos_body] exI[of _ world_a] exI[of _ world_a']) simp
next
  have "api_key world_a = api_key world_a' \<and> axios_get world_a = axios_get world_a'
         \<and> (\<forall>i. is_random (math_random world_a i)) \<and> (\<forall>i. is_random (math_random world_a' i))
         \<and> truthy (lima_query ''ciudad'')"
    by (simp add: world_a'_def world_a_def is_random_draws lima_query_def no_params_def)
  with hospedajes_vary show "\<exists>q w w'. api_key w = api_key w' \<and> axios_get w = axios_get w'
         \<and> (\<forall>i. is_random (math_random w i)) \<and> (\<forall>i. is_random (math_random w' i))
         \<and> truthy (q ''ciudad'')
         \<and> (\<exists>hs hs'. body (get_hospedaje w q) = HospedajesBody hs
               \<and> body (get_hospedaje w' q) = HospedajesBody hs'
               \<and> map hospedaje.precio hs \<noteq> map hospedaje.precio hs')"
    by (intro exI[of _ lima_query] exI[of _ world_a] exI[of _ world_a']) simp
qed

text \<open>The theorem at an advice request, in two worlds that differ in everything but the
  upstream.\<close>

theorem consejos_pure_vuelos_hospedaje_random_witness:
  "post_consejos world_a paris_aventura = post_consejos world_b paris_aventura
   \<and> calls (post_consejos world_a paris_aventura) = []"
  using consejos_pure_vuelos_hospedaje_random by blast

text \<open>
  Claim C7. The response of GET /hospedaje does not depend on \<open>fechaEntrada\<close> and
  \<open>fechaSalida\<close>: two requests with the same \<open>ciudad\<close>, in the same world (so with the
  same random numbers), get the same response, whatever else their queries hold.
\<close>

theorem get_hospedaje_ignores_dates:
  assumes "q ''ciudad'' = q' ''ciudad''"
  shows "get_hospedaje w q = get_hospedaje w q'"
  using assms by (simp add: get_hospedaje_def get_hospedaje_try_def Let_def)

text \<open>The theorem at \<^verbatim>\<open>?ciudad=Lima\<close> with and without the two dates.\<close>

theorem get_hospedaje_ignores_dates_witness:
  "lima_query ''ciudad'' = lima_query_fechas ''ciudad''
   \<and> lima_query ''fechaEntrada'' \<noteq> lima_query_fechas ''fechaEntrada''
   \<and> lima_query ''fechaSalida'' \<noteq> lima_query_fechas ''fechaSalida''
   \<and> get_hospedaje world_a lima_query = get_hospedaje world_a lima_query_fechas"
proof -
  have h: "lima_query ''ciudad'' = lima_query_fechas ''ciudad''"
    by (simp add: lima_query_fechas_def)
  have d: "lima_query ''fechaEntrada'' \<noteq> lima_query_fechas ''fechaEntrada''"
    "lima_query ''fechaSalida'' \<noteq> lima_query_fechas ''fechaSalida''"
    by (simp_all add: lima_query_fechas_def lima_query_def no_params_def)
  from get_hospedaje_ignores_dates[where q = lima_query and q' = lima_query_fechas
      and w = world_a, OF h] h d
  show ?thesis by blast
qed

text \<open>
  Claim C8, as amended. Every failure other than a missing parameter is answered with
  status 500. A failed outbound request of /wiki or /clima, and any exception that ends the
  \<^verbatim>\<open>try\<close> block of a handler (a \<open>ciudad\<close> that has no string conversion is one, for
  /wiki, /clima and /hospedaje, before any outbound request), give the handler's
  \<^verbatim>\<open>error\<close> text and the message of the error as \<^verbatim>\<open>mensaje\<close>. The missing credential
  of /clima gives a fixed \<^verbatim>\<open>error\<close> text and no \<^verbatim>\<open>mensaje\<close>, without an outbound
  request; it is the only 500 response without \<^verbatim>\<open>mensaje\<close>.
\<close>

theorem failures_are_500:
  "(truthy (q ''ciudad'') \<and> wiki_url (q ''ciudad'') = Inr u \<and> axios_get w u = Inl m \<longrightarrow>
      get_wiki w q = error_500 ''Error al consultar Wikipedia'' m [u])
   \<and> (truthy (q ''ciudad'') \<and> truthy (api_key w)
       \<and> clima_url (q ''ciudad'') (api_key w) = Inr u' \<and> axios_get w u' = Inl m \<longrightarrow>
      get_clima w q = error_500 ''Error al consultar el clima'' m [u'])
   \<and> (truthy (q ''ciudad'') \<and> \<not> truthy (api_key w) \<longrightarrow> get_clima w q = sin_credencial)
   \<and> (truthy (q ''ciudad'') \<and> to_string (q ''ciudad'') = Inl e' \<longrightarrow>
      get_wiki w q = error_500 ''Error al consultar Wikipedia'' (message e') []
      \<and> get_hospedaje w q = error_500 ''Error al buscar hospedaje'' (message e') []
      \<and> (truthy (api_key w) \<longrightarrow>
           get_clima w q = error_500 ''Error al consultar el clima'' (message e') []))
   \<and> (snd (get_wiki_try w q) = Inl e \<longrightarrow>
      get_wiki w q = error_500 ''Error al consultar Wikipedia'' (message e) (fst (get_wiki_try w q)))
   \<and> (snd (get_clima_try w q) = Inl e \<longrightarrow>
      get_clima w q = error_500 ''Error al consultar el clima'' (message e) (fst (get_clima_try w q)))
   \<and> (snd (post_vuelos_try w q) = Inl e \<longrightarrow>
      post_vuelos w q = error_500 ''Error al buscar vuelos'' (message e) (fst (post_vuelos_try w q)))
   \<and> (snd (get_hospedaje_try w q) = Inl e \<longrightarrow>
      get_hospedaje w q = error_500 ''Error al buscar hospedaje'' (message e) (fst (get_hospedaje_try w q)))
   \<and> (snd (post_consejos_try w q) = Inl e \<longrightarrow>
      post_consejos w q
        = error_500 ''Error al generar recomendaciones'' (message e) (fst (post_consejos_try w q)))
   \<and> (status (get_wiki w q) = 500 \<longrightarrow>
      (\<exists>m'. body (get_wiki w q) = ErrorBody ''Error al consultar Wikipedia'' (Some m')))
   \<and> (status (get_clima w q) = 500 \<longrightarrow>
      (\<exists>m'. body (get_clima w q) = ErrorBody ''Error al consultar el clima'' (Some m'))
      \<or> (\<not> truthy (api_key w) \<and> get_clima w q = sin_credencial))
   \<and> (status (post_vuelos w q) = 500 \<longrightarrow>
      (\<exists>m'. body (post_vuelos w q) = ErrorBody ''Error al buscar vuelos'' (Some m')))
   \<and> (status (get_hospedaje w q) = 500 \<longrightarrow>
      (\<exists>m'. body (get_hospedaje w q) = ErrorBody ''Error al buscar hospedaje'' (Some m')))
   \<and> (status (post_consejos w q) = 500 \<longrightarrow>
      (\<exists>m'. body (post_consejos w q) = ErrorBody ''Error al generar recomendaciones'' (Some m')))"
proof -
  have wiki_fail: "truthy (q ''ciudad'') \<and> wiki_url (q ''ciudad'') = Inr u \<and> axios_get w u = Inl m \<longrightarrow>
      get_wiki w q = error_500 ''Error al consultar Wikipedia'' m [u]"
    by (simp add: get_wiki_def get_wiki_try_def try_catch_def error_500_def)
  have clima_fail: "truthy (q ''ciudad'') \<and> truthy (api_key w)
       \<and> clima_url (q ''ciudad'') (api_key w) = Inr u' \<and> axios_get w u' = Inl m \<longrightarrow>
      get_clima w q = error_500 ''Error al consultar el clima'' m [u']"
    by (simp add: get_clima_def get_clima_try_def try_catch_def error_500_def)
  have no_key: "truthy (q ''ciudad'') \<and> \<not> truthy (api_key w) \<longrightarrow> get_clima w q = sin_credencial"
    by (simp add: get_clima_def get_clima_try_def try_catch_def sin_credencial_def)
  have conversion: "truthy (q ''ciudad'') \<and> to_string (q ''ciudad'') = Inl e' \<longrightarrow>
      get_wiki w q = error_500 ''Error al consultar Wikipedia'' (message e') []
      \<and> get_hospedaje w q = error_500 ''Error al buscar hospedaje'' (message e') []
      \<and> (truthy (api_key w) \<longrightarrow>
           get_clima w q = error_500 ''Error al consultar el clima'' (message e') [])"
    by (simp add: get_wiki_def get_wiki_try_def wiki_url_def get_hospedaje_def get_hospedaje_try_def
        get_clima_def get_clima_try_def clima_url_def try_catch_def error_500_def)
  have raised:
    "snd (get_wiki_try w q) = Inl e \<longrightarrow>
      get_wiki w q = error_500 ''Error al consultar Wikipedia'' (message e) (fst (get_wiki_try w q))"
    "snd (get_clima_try w q) = Inl e \<longrightarrow>
      get_clima w q = error_500 ''Error al consultar el clima'' (message e) (fst (get_clima_try w q))"
    "snd (post_vuelos_try w q) = Inl e \<longrightarrow>
      post_vuelos w q = error_500 ''Error al buscar vuelos'' (message e) (fst (post_vuelos_try w q))"
    "snd (get_hospedaje_try w q) = Inl e \<longrightarrow>
      get_hospedaje w q = error_500 ''Error al buscar hospedaje'' (message e) (fst (get_hospedaje_try w q))"
    "snd (post_consejos_try w q) = Inl e \<longrightarrow>
      post_consejos w q
        = error_500 ''Error al generar recomendaciones'' (message e) (fst (post_consejos_try w q))"
    by (simp_all add: get_wiki_def get_clima_def post_vuelos_def get_hospedaje_def
        post_consejos_def try_catch_Inl)
  have wiki_500: "status (get_wiki w q) = 500 \<longrightarrow>
      (\<exists>m'. body (get_wiki w q) = ErrorBody ''Error al consultar Wikipedia'' (Some m'))"
    unfolding get_wiki_def using try_catch_500 get_wiki_try_not_500 by blast
  have vuelos_500: "status (post_vuelos w q) = 500 \<longrightarrow>
      (\<exists>m'. body (post_vuelos w q) = ErrorBody ''Error al buscar vuelos'' (Some m'))"
    unfolding post_vuelos_def using try_catch_500 post_vuelos_try_not_500 by blast
  have hospedaje_500: "status (get_hospedaje w q) = 500 \<longrightarrow>
      (\<exists>m'. body (get_hospedaje w q) = ErrorBody ''Error al buscar hospedaje'' (Some m'))"
    unfolding get_hospedaje_def using try_catch_500 get_hospedaje_try_not_500 by blast
  have consejos_500: "status (post_consejos w q) = 500 \<longrightarrow>
      (\<exists>m'. body (post_consejos w q) = ErrorBody ''Error al generar recomendaciones'' (Some m'))"
    unfolding post_consejos_def using try_catch_500 post_consejos_try_not_500 by blast
  have clima_500: "status (get_clima w q) = 500 \<longrightarrow>
      (\<exists>m'. body (get_clima w q) = ErrorBody ''Error al consultar el clima'' (Some m'))
      \<or> (\<not> truthy (api_key w) \<and> get_clima w q = sin_credencial)"
  proof
    assume s: "status (get_clima w q) = 500"
    from try_catch_500[OF s[unfolded get_clima_def]]
    show "(\<exists>m'. body (get_clima w q) = ErrorBody ''Error al consultar el clima'' (Some m'))
      \<or> (\<not> truthy (api_key w) \<and> get_clima w q = sin_credencial)"
    proof
      assume "\<exists>m. body (try_catch ''Error al consultar el clima'' (get_clima_try w q))
          = ErrorBody ''Error al consultar el clima'' (Some m)"
      then show ?thesis by (simp add: get_clima_def)
    next
      assume "\<exists>b. snd (get_clima_try w q) = Inr (500, b)
          \<and> body (try_catch ''Error al consultar el clima'' (get_clima_try w q)) = b"
      then obtain b where b: "snd (get_clima_try w q) = Inr (500, b)" by blast
      from get_clima_try_500[OF b] have k: "\<not> truthy (api_key w)" by simp
      have "truthy (q ''ciudad'')"
        using b by (auto simp: get_clima_try_def Let_def split: if_splits)
      with k no_key show ?thesis by simp
    qed
  qed
  show ?thesis
    by (intro conjI wiki_fail clima_fail no_key conversion raised wiki_500 clima_500 vuelos_500
        hospedaje_500 consejos_500)
qed

text \<open>
  The theorem at a city the upstream does not know, with and without credential, at an
  advice request whose \<open>tipoViaje\<close> is \<^verbatim>\<open>null\<close>, and at a \<open>ciudad\<close> that has no
  string conversion.
\<close>

theorem failures_are_500_witness:
  "truthy (cusco_query ''ciudad'') \<and> truthy (api_key world_a) \<and> \<not> truthy (api_key world_b)
   \<and> wiki_url (cusco_query ''ciudad'')
       = Inr ''https://es.wikipedia.org/api/rest_v1/page/summary/Cusco''
   \<and> axios_get world_a ''https://es.wikipedia.org/api/rest_v1/page/summary/Cusco''
       = Inl ''Request failed with status code 404''
   \<and> clima_url (cusco_query ''ciudad'') (api_key world_a)
       = Inr ''https://api.openweathermap.org/data/2.5/weather?q=Cusco&units=metric&lang=es&appid=k3y''
   \<and> axios_get world_a
         ''https://api.openweathermap.org/data/2.5/weather?q=Cusco&units=metric&lang=es&appid=k3y''
       = Inl ''Request failed with status code 404''
   \<and> snd (post_consejos_try world_a paris_tipo_null) = Inl (NullishRead JNull ''toLowerCase'')
   \<and> truthy (ciudad_objeto ''ciudad'') \<and> to_string (ciudad_objeto ''ciudad'') = Inl NotPrimitive
   \<and> get_wiki world_a cusco_query =
       error_500 ''Error al consultar Wikipedia'' ''Request failed with status code 404''
         [''https://es.wikipedia.org/api/rest_v1/page/summary/Cusco'']
   \<and> get_clima world_a cusco_query =
       error_500 ''Error al consultar el clima'' ''Request failed with status code 404''
         [''https://api.openweathermap.org/data/2.5/weather?q=Cusco&units=metric&lang=es&appid=k3y'']
   \<and> get_clima world_b cusco_query = sin_credencial
   \<and> post_consejos world_a paris_tipo_null =
       error_500 ''Error al generar recomendaciones''
         (message (NullishRead JNull ''toLowerCase'')) []
   \<and> get_wiki world_a ciudad_objeto =
       error_500 ''Error al consultar Wikipedia'' (message NotPrimitive) []
   \<and> get_clima world_a ciudad_objeto =
       error_500 ''Error al consultar el clima'' (message NotPrimitive) []
   \<and> get_hospedaje world_a ciudad_objeto =
       error_500 ''Error al buscar hospedaje'' (message NotPrimitive) []"
proof -
  have c: "cusco_query ''ciudad'' = JStr ''Cusco''" by (simp add: cusco_query_def)
  have k: "api_key world_a = JStr ''k3y''" "api_key world_b = JUndefined"
    by (simp_all add: world_a_def world_b_def)
  have ka: "truthy (api_key world_a)" and kb: "\<not> truthy (api_key world_b)"
    by (simp_all add: k)
  have h1: "truthy (cusco_query ''ciudad'')" by (simp add: c)
  have u1: "wiki_url (cusco_query ''ciudad'')
       = Inr ''https://es.wikipedia.org/api/rest_v1/page/summary/Cusco''"
    by (simp add: c wiki_url_Cusco)
  have h2: "axios_get world_a ''https://es.wikipedia.org/api/rest_v1/page/summary/Cusco''
       = Inl ''Request failed with status code 404''"
    by (simp add: world_a_def upstream_def)
  have u2: "clima_url (cusco_query ''ciudad'') (api_key world_a)
       = Inr ''https://api.openweathermap.org/data/2.5/weather?q=Cusco&units=metric&lang=es&appid=k3y''"
    by (simp add: c k clima_url_Cusco)
  have h3: "axios_get world_a
         ''https://api.openweathermap.org/data/2.5/weather?q=Cusco&units=metric&lang=es&appid=k3y''
       = Inl ''Request failed with status code 404''"
    by (simp add: world_a_def upstream_def)
  have h4: "snd (post_consejos_try world_a paris_tipo_null) = Inl (NullishRead JNull ''toLowerCase'')"
    by (simp add: post_consejos_try_def paris_tipo_null_def no_params_def default_to_def)
  have f4: "fst (post_consejos_try world_a paris_tipo_null) = []"
    by (simp add: post_consejos_try_def paris_tipo_null_def no_params_def default_to_def)
  have h5: "truthy (ciudad_objeto ''ciudad'')"
    and h6: "to_string (ciudad_objeto ''ciudad'') = Inl NotPrimitive"
    by (simp_all add: ciudad_objeto_def)
  note A = failures_are_500[where q = cusco_query and w = world_a
      and m = "''Request failed with status code 404''"
      and u = "''https://es.wikipedia.org/api/rest_v1/page/summary/Cusco''"
      and u' = "''https://api.openweathermap.org/data/2.5/weather?q=Cusco&units=metric&lang=es&appid=k3y''"]
  note B = failures_are_500[where q = cusco_query and w = world_b]
  note C = failures_are_500[where q = paris_tipo_null and w = world_a
      and e = "NullishRead JNull ''toLowerCase''"]
  note D = failures_are_500[where q = ciudad_objeto and w = world_a and e' = NotPrimitive]
  have w: "get_wiki world_a cusco_query =
       error_500 ''Error al consultar Wikipedia'' ''Request failed with status code 404''
         [''https://es.wikipedia.org/api/rest_v1/page/summary/Cusco'']"
    using A h1 u1 h2 by blast
  have cl: "get_clima world_a cusco_query =
       error_500 ''Error al consultar el clima'' ''Request failed with status code 404''
         [''https://api.openweathermap.org/data/2.5/weather?q=Cusco&units=metric&lang=es&appid=k3y'']"
    using A h1 ka u2 h3 by blast
  have nk: "get_clima world_b cusco_query = sin_credencial"
    using B h1 kb by blast
  have ex: "post_consejos world_a paris_tipo_null =
       error_500 ''Error al generar recomendaciones''
         (message (NullishRead JNull ''toLowerCase'')) []"
    using C h4 f4 by simp
  have ob1: "get_wiki world_a ciudad_objeto =
       error_500 ''Error al consultar Wikipedia'' (message NotPrimitive) []"
    using D h5 h6 by blast
  have ob2: "get_clima world_a ciudad_objeto =
       error_500 ''Error al consultar el clima'' (message NotPrimitive) []"
    using D h5 h6 ka by blast
  have ob3: "get_hospedaje world_a ciudad_objeto =
       error_500 ''Error al buscar hospedaje'' (message NotPrimitive) []"
    using D h5 h6 by blast
  show ?thesis
    by (intro conjI h1 ka kb u1 h2 u2 h3 h4 h5 h6 w cl nk ex ob1 ob2 ob3)
qed

text \<open>
  The claim that the missing-credential response carries a message like the other 500
  responses fails: its body has the \<^verbatim>\<open>error\<close> text only.
\<close>

theorem get_clima_missing_credential_counterexample:
  "truthy (lima_query ''ciudad'') \<and> api_key world_b = JUndefined
   \<and> get_clima world_b lima_query =
       \<lparr>status = 500, body = ErrorBody ''API key de OpenWeather no configurada'' None, calls = []\<rparr>"
  by (simp add: lima_query_def no_params_def world_b_def get_clima_def get_clima_try_def
      try_catch_def)

text \<open>
  Claim C9. For every GET /wiki request whose \<open>ciudad\<close> passes the presence check and
  whose lookup succeeds (the outbound request to the URL \<open>u\<close> made of \<open>ciudad\<close> resolves
  with a document), the response is 200 with \<open>titulo\<close> the document's \<open>title\<close>,
  \<open>extracto\<close> its \<open>extract\<close>, \<open>url\<close> its \<open>content_urls.desktop.page\<close>, replaced by the
  empty string when absent (or otherwise falsy), and \<open>imagen\<close> its \<open>thumbnail.source\<close>,
  replaced by \<^verbatim>\<open>null\<close> when absent (or otherwise falsy); \<open>u\<close> is the one outbound
  request made, for a string \<open>ciudad\<close> the summary address followed by the encoded
  \<open>ciudad\<close>.
\<close>

theorem get_wiki_success_mapping:
  assumes "truthy (q ''ciudad'')"
    and "wiki_url (q ''ciudad'') = Inr u"
    and "axios_get w u = Inr data"
    and "\<not> nullish data"
  shows "(\<exists>r. get_wiki w q = \<lparr>status = 200, body = WikiBody r, calls = [u]\<rparr>
    \<and> titulo r = prop_of data ''title''
    \<and> extracto r = prop_of data ''extract''
    \<and> url r = (if truthy (path_of data [''content_urls'', ''desktop'', ''page''])
               then path_of data [''content_urls'', ''desktop'', ''page''] else JStr '''')
    \<and> wiki_summary.imagen r = (if truthy (path_of data [''thumbnail'', ''source''])
               then path_of data [''thumbnail'', ''source''] else JNull)
    \<and> (path_of data [''content_urls'', ''desktop'', ''page''] = JUndefined \<longrightarrow> url r = JStr '''')
    \<and> (path_of data [''thumbnail'', ''source''] = JUndefined \<longrightarrow> wiki_summary.imagen r = JNull))
    \<and> (\<forall>s. q ''ciudad'' = JStr s \<longrightarrow>
         u = ''https://es.wikipedia.org/api/rest_v1/page/summary/'' @ encodeURIComponent s)"
proof -
  have "wiki_summary_of data =
      Inr \<lparr>titulo = prop_of data ''title'', extracto = prop_of data ''extract'',
           url = or_else (opt_prop (opt_prop (prop_of data ''content_urls'') ''desktop'') ''page'') (JStr ''''),
           imagen = or_else (opt_prop (prop_of data ''thumbnail'') ''source'') JNull\<rparr>"
    using assms(4) by (simp add: wiki_summary_of_def get_prop_def)
  moreover have "opt_prop (opt_prop (prop_of data ''content_urls'') ''desktop'') ''page''
      = path_of data [''content_urls'', ''desktop'', ''page'']"
    using assms(4) by (simp add: opt_prop_def nullish_def)
  moreover have "opt_prop (prop_of data ''thumbnail'') ''source'' = path_of data [''thumbnail'', ''source'']"
    using assms(4) by (simp add: opt_prop_def)
  ultimately have main: "\<exists>r. get_wiki w q = \<lparr>status = 200, body = WikiBody r, calls = [u]\<rparr>
    \<and> titulo r = prop_of data ''title''
    \<and> extracto r = prop_of data ''extract''
    \<and> url r = (if truthy (path_of data [''content_urls'', ''desktop'', ''page''])
               then path_of data [''content_urls'', ''desktop'', ''page''] else JStr '''')
    \<and> wiki_summary.imagen r = (if truthy (path_of data [''thumbnail'', ''source''])
               then path_of data [''thumbnail'', ''source''] else JNull)
    \<and> (path_of data [''content_urls'', ''desktop'', ''page''] = JUndefined \<longrightarrow> url r = JStr '''')
    \<and> (path_of data [''thumbnail'', ''source''] = JUndefined \<longrightarrow> wiki_summary.imagen r = JNull)"
    using assms(1,2,3)
    by (simp add: get_wiki_def get_wiki_try_def try_catch_def or_else_def)
  have str: "\<forall>s. q ''ciudad'' = JStr s \<longrightarrow>
         u = ''https://es.wikipedia.org/api/rest_v1/page/summary/'' @ encodeURIComponent s"
    using assms(2) by (auto simp: wiki_url_def)
  from main str show ?thesis by (rule conjI)
qed

text \<open>The theorem at \<^verbatim>\<open>/wiki?ciudad=Lima\<close>, for a summary without thumbnail.\<close>

theorem get_wiki_success_mapping_witness:
  "truthy (lima_query ''ciudad'')
   \<and> wiki_url (lima_query ''ciudad'') = Inr ''https://es.wikipedia.org/api/rest_v1/page/summary/Lima''
   \<and> axios_get world_a ''https://es.wikipedia.org/api/rest_v1/page/summary/Lima'' = Inr lima_summary
   \<and> \<not> nullish lima_summary
   \<and> get_wiki world_a lima_query =
       \<lparr>status = 200,
        body = WikiBody
          \<lparr>titulo = JStr ''Lima'', extracto = JStr (''Lima es la capital del Per'' @ u_acute),
           url = JStr ''https://es.wikipedia.org/wiki/Lima'', imagen = JNull\<rparr>,
        calls = [''https://es.wikipedia.org/api/rest_v1/page/summary/Lima'']\<rparr>"
proof -
  have c: "lima_query ''ciudad'' = JStr ''Lima''" by (simp add: lima_query_def)
  have h1: "truthy (lima_query ''ciudad'')" by (simp add: c)
  have hu: "wiki_url (lima_query ''ciudad'') = Inr ''https://es.wikipedia.org/api/rest_v1/page/summary/Lima''"
    by (simp add: c wiki_url_Lima)
  have h2: "axios_get world_a ''https://es.wikipedia.org/api/rest_v1/page/summary/Lima'' = Inr lima_summary"
    by (simp add: world_a_def upstream_def)
  have h3: "\<not> nullish lima_summary" by (simp add: nullish_def lima_summary_def)
  from get_wiki_success_mapping[where q = lima_query and w = world_a, OF h1 hu h2 h3]
  obtain r where r: "get_wiki world_a lima_query =
        \<lparr>status = 200, body = WikiBody r,
         calls = [''https://es.wikipedia.org/api/rest_v1/page/summary/Lima'']\<rparr>"
    "titulo r = prop_of lima_summary ''title''"
    "extracto r = prop_of lima_summary ''extract''"
    "url r = (if truthy (path_of lima_summary [''content_urls'', ''desktop'', ''page''])
               then path_of lima_summary [''content_urls'', ''desktop'', ''page''] else JStr '''')"
    "wiki_summary.imagen r = (if truthy (path_of lima_summary [''thumbnail'', ''source''])
               then path_of lima_summary [''thumbnail'', ''source''] else JNull)"
    by blast
  have "r = \<lparr>titulo = JStr ''Lima'', extracto = JStr (''Lima es la capital del Per'' @ u_acute),
           url = JStr ''https://es.wikipedia.org/wiki/Lima'', imagen = JNull\<rparr>"
    using r(2-5) by (cases r) (simp add: lima_summary_def nullish_def)
  then show ?thesis using r(1) h1 hu h2 h3 by simp
qed

text \<open>
  Claim C10. A required parameter given as the empty string is treated as a missing one:
  GET /wiki, GET /clima and GET /hospedaje with \<open>ciudad\<close> empty, POST /vuelos with one of
  \<open>origen\<close>, \<open>destino\<close>, \<open>fecha\<close> empty and POST /consejos with \<open>destino\<close> empty are
  answered with the same 400 response as when the parameter is absent.
\<close>

theorem empty_parameter_400:
  "(q ''ciudad'' = JStr '''' \<longrightarrow>
      get_wiki w q = requiere_ciudad \<and> get_clima w q = requiere_ciudad
      \<and> get_hospedaje w q = requiere_ciudad)
   \<and> (bv ''origen'' = JStr '''' \<or> bv ''destino'' = JStr '''' \<or> bv ''fecha'' = JStr '''' \<longrightarrow>
      post_vuelos w bv = requieren_vuelos)
   \<and> (bc ''destino'' = JStr '''' \<longrightarrow> post_consejos w bc = requiere_destino)
   \<and> get_wiki w (q(''ciudad'' := JStr '''')) = get_wiki w (q(''ciudad'' := JUndefined))
   \<and> get_clima w (q(''ciudad'' := JStr '''')) = get_clima w (q(''ciudad'' := JUndefined))
   \<and> get_hospedaje w (q(''ciudad'' := JStr '''')) = get_hospedaje w (q(''ciudad'' := JUndefined))
   \<and> post_vuelos w (bv(''origen'' := JStr '''')) = post_vuelos w (bv(''origen'' := JUndefined))
   \<and> post_vuelos w (bv(''destino'' := JStr '''')) = post_vuelos w (bv(''destino'' := JUndefined))
   \<and> post_vuelos w (bv(''fecha'' := JStr '''')) = post_vuelos w (bv(''fecha'' := JUndefined))
   \<and> post_consejos w (bc(''destino'' := JStr '''')) = post_consejos w (bc(''destino'' := JUndefined))
   \<and> status requiere_ciudad = 400 \<and> status requieren_vuelos = 400 \<and> status requiere_destino = 400"
proof -
  have "q ''ciudad'' = JStr '''' \<longrightarrow>
      get_wiki w q = requiere_ciudad \<and> get_clima w q = requiere_ciudad
      \<and> get_hospedaje w q = requiere_ciudad"
    by (simp add: get_wiki_falsy get_clima_falsy get_hospedaje_falsy)
  moreover have "bv ''origen'' = JStr '''' \<or> bv ''destino'' = JStr '''' \<or> bv ''fecha'' = JStr ''''
      \<longrightarrow> post_vuelos w bv = requieren_vuelos"
    using post_vuelos_falsy[of bv w] by auto
  moreover have "bc ''destino'' = JStr '''' \<longrightarrow> post_consejos w bc = requiere_destino"
    by (simp add: post_consejos_falsy)
  moreover have "post_vuelos w (bv(''origen'' := JStr '''')) = post_vuelos w (bv(''origen'' := JUndefined))"
    "post_vuelos w (bv(''destino'' := JStr '''')) = post_vuelos w (bv(''destino'' := JUndefined))"
    "post_vuelos w (bv(''fecha'' := JStr '''')) = post_vuelos w (bv(''fecha'' := JUndefined))"
    by (simp_all add: post_vuelos_falsy)
  ultimately show ?thesis
    by (simp add: get_wiki_falsy get_clima_falsy get_hospedaje_falsy post_consejos_falsy
        requiere_ciudad_def requieren_vuelos_def requiere_destino_def)
qed

text \<open>The theorem at \<^verbatim>\<open>?ciudad=\<close>, at flight searches with an empty \<open>origen\<close> and an
  empty \<open>destino\<close>, and at an advice request with an empty \<open>destino\<close>.\<close>

theorem empty_parameter_400_witness:
  "(no_params(''ciudad'' := JStr '''')) ''ciudad'' = JStr ''''
   \<and> (vuelos_body(''origen'' := JStr '''')) ''origen'' = JStr ''''
   \<and> (vuelos_body(''destino'' := JStr '''')) ''destino'' = JStr ''''
   \<and> get_wiki world_a (no_params(''ciudad'' := JStr '''')) = requiere_ciudad
   \<and> get_clima world_a (no_params(''ciudad'' := JStr '''')) = requiere_ciudad
   \<and> get_hospedaje world_a (no_params(''ciudad'' := JStr '''')) = requiere_ciudad
   \<and> post_vuelos world_a (vuelos_body(''origen'' := JStr '''')) = requieren_vuelos
   \<and> post_vuelos world_a (vuelos_body(''destino'' := JStr '''')) = requieren_vuelos
   \<and> post_consejos world_a (no_params(''destino'' := JStr '''')) = requiere_destino"
  using empty_parameter_400[of "no_params(''ciudad'' := JStr '''')" world_a
      "vuelos_body(''origen'' := JStr '''')" "no_params(''destino'' := JStr '''')"]
    empty_parameter_400[of "no_params(''ciudad'' := JStr '''')" world_a
      "vuelos_body(''destino'' := JStr '''')" "no_params(''destino'' := JStr '''')"]
  by simp

end
